theory Spec2Isabelle
  imports Complex_Main "HOL-Library.AList" "HOL-Library.Multiset"
begin

section \<open>Numbers\<close>

text \<open>
  The calibrator computes with C++ \<^verbatim>\<open>double\<close> and \<^verbatim>\<open>int64_t\<close>. A \<^verbatim>\<open>double\<close> is
  modelled as a \<^typ>\<open>real\<close>: the comparisons of the code are exact on finite doubles, and
  the products with \<^verbatim>\<open>1e9\<close> and \<^verbatim>\<open>1e-3\<close> are taken without rounding. An
  \<^verbatim>\<open>int64_t\<close> is modelled as an \<^typ>\<open>int\<close>; the values are assumed to stay inside
  the 64-bit range, where no operation of the code wraps.

  Assigning a \<^verbatim>\<open>double\<close> to an \<^verbatim>\<open>int64_t\<close> drops the fraction (rounds towards
  zero), and \<^verbatim>\<open>/\<close> on two \<^verbatim>\<open>int64_t\<close> rounds towards zero as well.
\<close>

definition to_int64 :: "real \<Rightarrow> int" where
  "to_int64 x = (if 0 \<le> x then \<lfloor>x\<rfloor> else \<lceil>x\<rceil>)"

definition int64_div :: "int \<Rightarrow> int \<Rightarrow> int" where
  "int64_div a b = sgn a * sgn b * (\<bar>a\<bar> div \<bar>b\<bar>)"

section \<open>Vectors, rotations and rigid transforms\<close>

type_synonym Vector2d = "real \<times> real"
type_synonym Vector3d = "real \<times> real \<times> real"

text \<open>A 3x3 matrix, given by its three rows.\<close>

type_synonym Matrix3d = "Vector3d \<times> Vector3d \<times> Vector3d"

fun vec_add :: "Vector3d \<Rightarrow> Vector3d \<Rightarrow> Vector3d" where
  "vec_add (a1, a2, a3) (b1, b2, b3) = (a1 + b1, a2 + b2, a3 + b3)"

fun vec_neg :: "Vector3d \<Rightarrow> Vector3d" where
  "vec_neg (a1, a2, a3) = (- a1, - a2, - a3)"

fun dot :: "Vector3d \<Rightarrow> Vector3d \<Rightarrow> real" where
  "dot (a1, a2, a3) (b1, b2, b3) = a1 * b1 + a2 * b2 + a3 * b3"

fun mat_vec :: "Matrix3d \<Rightarrow> Vector3d \<Rightarrow> Vector3d" where
  "mat_vec (r1, r2, r3) v = (dot r1 v, dot r2 v, dot r3 v)"

fun transpose3 :: "Matrix3d \<Rightarrow> Matrix3d" where
  "transpose3 ((a11, a12, a13), (a21, a22, a23), (a31, a32, a33)) =
     ((a11, a21, a31), (a12, a22, a32), (a13, a23, a33))"

fun mat_mul :: "Matrix3d \<Rightarrow> Matrix3d \<Rightarrow> Matrix3d" where
  "mat_mul (r1, r2, r3) B =
     (case transpose3 B of (c1, c2, c3) \<Rightarrow>
        ((dot r1 c1, dot r1 c2, dot r1 c3),
         (dot r2 c1, dot r2 c2, dot r2 c3),
         (dot r3 c1, dot r3 c2, dot r3 c3)))"

definition Identity3 :: Matrix3d where
  "Identity3 = ((1, 0, 0), (0, 1, 0), (0, 0, 1))"

text \<open>
  \<^verbatim>\<open>Sophus::SE3<double>\<close>: a rotation and a translation. The product composes two
  transforms, the inverse of \<open>(R, t)\<close> is \<open>(R\<^sup>T, - R\<^sup>T t)\<close>, and \<^verbatim>\<open>so3()\<close> is the
  rotation part.
\<close>

record SE3 =
  so3 :: Matrix3d
  translation3 :: Vector3d

definition SE3_mult :: "SE3 \<Rightarrow> SE3 \<Rightarrow> SE3" where
  "SE3_mult A B =
     \<lparr>so3 = mat_mul (so3 A) (so3 B),
      translation3 = vec_add (mat_vec (so3 A) (translation3 B)) (translation3 A)\<rparr>"

definition SE3_inverse :: "SE3 \<Rightarrow> SE3" where
  "SE3_inverse A =
     \<lparr>so3 = transpose3 (so3 A),
      translation3 = vec_neg (mat_vec (transpose3 (so3 A)) (translation3 A))\<rparr>"

definition SE3_identity :: SE3 where
  "SE3_identity = \<lparr>so3 = Identity3, translation3 = (0, 0, 0)\<rparr>"

section \<open>The inputs\<close>

text \<open>
  A view of the \<^verbatim>\<open>theia::Reconstruction\<close>: its id, its timestamp in seconds, its camera
  (orientation, position, image height) and its features, one per track id. The
  reconstruction keeps its views in a container keyed by view id; \<^verbatim>\<open>ViewIds()\<close> lists
  the keys and \<^verbatim>\<open>View(id)\<close> fetches the view of a key, or a null pointer. The model is
  the list of the views in the order of \<^verbatim>\<open>ViewIds()\<close>, so the loops
  \<^verbatim>\<open>for (const ViewId view_id : view_ids)\<close> visit the list.
\<close>

record Camera =
  GetOrientationAsRotationMatrix :: Matrix3d
  GetPosition :: Vector3d
  ImageHeight :: int

record View =
  view_id :: nat
  GetTimestamp :: real
  GetCamera :: Camera
  features :: "(nat \<times> Vector2d) list"

type_synonym Reconstruction = "View list"

definition ViewAt :: "Reconstruction \<Rightarrow> nat \<Rightarrow> View option" where
  "ViewAt calib_dataset i = find (\<lambda>v. view_id v = i) calib_dataset"

text \<open>
  The telemetry: the accelerometer and the gyroscope each are two parallel vectors, the
  measurements and their timestamps in milliseconds.
\<close>

record ImuStream =
  measurement :: "Vector3d list"
  timestamp_ms :: "real list"

record CameraTelemetryData =
  accelerometer :: ImuStream
  gyroscope :: ImuStream

record SplineWeightingData =
  dt_so3 :: real
  dt_r3 :: real
  var_so3 :: real
  var_r3 :: real
  cam_fps :: real

section \<open>The calibrator's state\<close>

datatype TimeCamId = TimeCamId (frame_id: int) (cam_id: nat)

record CalibCornerData =
  corners :: "Vector2d list"
  track_ids :: "nat list"

record CalibInitPoseData =
  T_a_c :: SE3

text \<open>
  Modelled from the spec: the class of \<^verbatim>\<open>trajectory_\<close> (the continuous-time trajectory,
  which owns the knots, the line delay, the gravity vector and the residual blocks) is not
  among the sources. The model keeps what the calibrator does to it: the calls it makes, in
  order, each with its arguments. \<^verbatim>\<open>Clear()\<close> "resets the Trajectory to an empty state":
  the empty list of calls.
\<close>

datatype trajectory_call =
    SetInitialRSLineDelay real
  | init_times int int int
  | setCalib Reconstruction
  | setT_i_c SE3
  | initAll "(TimeCamId \<times> CalibInitPoseData) list" int int
  | addRSCornersMeasurement CalibCornerData Reconstruction Camera int
  | addAccelMeasurement Vector3d real real bool
  | addGyroMeasurement Vector3d real real bool
  | setG Vector3d
  | optimize int

type_synonym Trajectory = "trajectory_call list"

text \<open>
  The members of \<^verbatim>\<open>ImuCameraCalibrator\<close> that the functions read and write. The maps
  are association lists: a write replaces the entry of its key or adds one.
\<close>

record ImuCameraCalibrator =
  spline_weight_data :: SplineWeightingData
  T_i_c_init :: SE3
  cam_timestamps :: "real list"
  calibrate_cam_line_delay :: bool
  inital_cam_line_delay_s :: real
  trajectory :: Trajectory
  t0_s :: real
  tend_s :: real
  calib_corners :: "(TimeCamId \<times> CalibCornerData) list"
  calib_init_poses :: "(TimeCamId \<times> CalibInitPoseData) list"
  spline_init_poses :: "(TimeCamId \<times> CalibInitPoseData) list"
  nr_knots_so3 :: int
  nr_knots_r3 :: int
  reestimate_biases :: bool
  accl_measurements :: "(real \<times> Vector3d) list"
  gyro_measurements :: "(real \<times> Vector3d) list"
  gravity_init :: Vector3d
  gravity_initialized :: bool

text \<open>
  What the C++ leaves undefined is an error of the model: reading a vector past its end,
  dividing by zero, and using the null pointer that \<^verbatim>\<open>View(0)\<close> returns when no view
  has id 0. That holds for the division of two \<^verbatim>\<open>double\<close> as well: where the hardware
  defines it, \<^verbatim>\<open>1. / 0\<close> is an infinity, which is no real number, so the model stops
  there too. An error carries the state as it was when the function went wrong, so that
  what was written before is visible.
\<close>

datatype error = OutOfRange | DivisionByZero | NullPointer

type_synonym result = "(error \<times> ImuCameraCalibrator) + ImuCameraCalibrator"

definition and_then :: "result \<Rightarrow> (ImuCameraCalibrator \<Rightarrow> result) \<Rightarrow> result" where
  "and_then r f = (case r of Inl e \<Rightarrow> Inl e | Inr st \<Rightarrow> f st)"

definition state_of :: "result \<Rightarrow> ImuCameraCalibrator" where
  "state_of r = (case r of Inl (e, st) \<Rightarrow> st | Inr st \<Rightarrow> st)"

definition call :: "trajectory_call \<Rightarrow> ImuCameraCalibrator \<Rightarrow> ImuCameraCalibrator" where
  "call c st = st\<lparr>trajectory := trajectory st @ [c]\<rparr>"

section \<open>InitSpline\<close>

text \<open>
  Lines 31 to 40: the weighting data and the initial transform are stored, the timestamp
  of every view is appended to \<^verbatim>\<open>cam_timestamps_\<close>, and the vector is sorted.
\<close>

definition collect_timestamps ::
  "Reconstruction \<Rightarrow> SE3 \<Rightarrow> SplineWeightingData \<Rightarrow> ImuCameraCalibrator \<Rightarrow> ImuCameraCalibrator" where
  "collect_timestamps calib_dataset T_i_c swd st =
     st\<lparr>spline_weight_data := swd,
        T_i_c_init := T_i_c,
        cam_timestamps := sort (cam_timestamps st @ map GetTimestamp calib_dataset)\<rparr>"

text \<open>
  Lines 42 to 51: the line delay. With the calibration of the line delay switched on, the
  code reads \<^verbatim>\<open>view_ids[0]\<close>, which is past the end of an empty vector, and divides
  by the frame rate and by the image height of that view.
\<close>

definition set_line_delay :: "real \<Rightarrow> ImuCameraCalibrator \<Rightarrow> ImuCameraCalibrator" where
  "set_line_delay d st = call (SetInitialRSLineDelay d) (st\<lparr>inital_cam_line_delay_s := d\<rparr>)"

definition init_line_delay ::
  "Reconstruction \<Rightarrow> SplineWeightingData \<Rightarrow> ImuCameraCalibrator \<Rightarrow> result" where
  "init_line_delay calib_dataset swd st =
     (if calibrate_cam_line_delay st then
        (case calib_dataset of
           [] \<Rightarrow> Inl (OutOfRange, st)
         | view0 # _ \<Rightarrow>
             if cam_fps swd = 0 \<or> ImageHeight (GetCamera view0) = 0
             then Inl (DivisionByZero, st)
             else Inr (set_line_delay
                         ((1 / cam_fps swd) * (1 / real_of_int (ImageHeight (GetCamera view0))))
                         st))
      else Inr (set_line_delay 0 st))"

text \<open>
  \<^verbatim>\<open>std::minmax_element\<close> returns the position of the first smallest and of the last
  largest element; on an empty range both are the end of the range, position 0.
\<close>

fun min_element :: "real list \<Rightarrow> nat" where
  "min_element [] = 0"
| "min_element [x] = 0"
| "min_element (x # y # ys) =
     (let k = min_element (y # ys) in if (y # ys) ! k < x then Suc k else 0)"

fun max_element :: "real list \<Rightarrow> nat" where
  "max_element [] = 0"
| "max_element [x] = 0"
| "max_element (x # y # ys) =
     (let k = max_element (y # ys) in if (y # ys) ! k < x then 0 else Suc k)"

text \<open>
  Lines 56 to 71: the window. The four nanosecond values are locals of the function; they
  are computed from members that the rest of the function does not write again.
\<close>

definition start_t_ns :: "ImuCameraCalibrator \<Rightarrow> int" where
  "start_t_ns st = to_int64 (t0_s st * 1000000000)"

definition end_t_ns :: "ImuCameraCalibrator \<Rightarrow> int" where
  "end_t_ns st = to_int64 (tend_s st * 1000000000)"

definition dt_so3_ns :: "ImuCameraCalibrator \<Rightarrow> int" where
  "dt_so3_ns st = to_int64 (dt_so3 (spline_weight_data st) * 1000000000)"

definition dt_r3_ns :: "ImuCameraCalibrator \<Rightarrow> int" where
  "dt_r3_ns st = to_int64 (dt_r3 (spline_weight_data st) * 1000000000)"

definition init_window :: "Reconstruction \<Rightarrow> SE3 \<Rightarrow> ImuCameraCalibrator \<Rightarrow> result" where
  "init_window calib_dataset T_i_c st =
     (case cam_timestamps st of
        [] \<Rightarrow> Inl (OutOfRange, st)
      | _ # _ \<Rightarrow>
          (let st' = st\<lparr>t0_s := cam_timestamps st ! min_element (cam_timestamps st),
                        tend_s := cam_timestamps st ! max_element (cam_timestamps st)\<rparr>
           in Inr (call (setT_i_c T_i_c)
                (call (setCalib calib_dataset)
                  (call (init_times (dt_so3_ns st') (dt_r3_ns st') (start_t_ns st')) st')))))"

text \<open>
  Lines 73 to 97: the views. \<open>store_view\<close> is the body of the loop after the test of the
  window; \<^verbatim>\<open>calib_init_poses_.at(t_c_id)\<close> reads back the entry written the line before.
\<close>

definition store_view :: "SE3 \<Rightarrow> View \<Rightarrow> ImuCameraCalibrator \<Rightarrow> ImuCameraCalibrator" where
  "store_view T_i_c view st =
     (let t_c_id = TimeCamId (to_int64 (GetTimestamp view * 1000000000)) 0;
          corner_data = \<lparr>corners = map snd (features view), track_ids = map fst (features view)\<rparr>;
          pose_data =
            \<lparr>T_a_c = \<lparr>so3 = transpose3 (GetOrientationAsRotationMatrix (GetCamera view)),
                      translation3 = GetPosition (GetCamera view)\<rparr>\<rparr>;
          spline_pose_data = \<lparr>T_a_c = SE3_mult (T_a_c pose_data) (SE3_inverse T_i_c)\<rparr>
      in st\<lparr>calib_corners := AList.update t_c_id corner_data (calib_corners st),
            calib_init_poses := AList.update t_c_id pose_data (calib_init_poses st),
            spline_init_poses := AList.update t_c_id spline_pose_data (spline_init_poses st)\<rparr>)"

fun ingest_views :: "SE3 \<Rightarrow> View list \<Rightarrow> ImuCameraCalibrator \<Rightarrow> ImuCameraCalibrator" where
  "ingest_views T_i_c [] st = st"
| "ingest_views T_i_c (view # views) st =
     (if GetTimestamp view \<ge> tend_s st \<or> GetTimestamp view < t0_s st
      then ingest_views T_i_c views st
      else ingest_views T_i_c views (store_view T_i_c view st))"

text \<open>
  Lines 99 to 105: the knots. \<^verbatim>\<open>SPLINE_N\<close>, the order of the spline, is a constant of a
  header that is not among the sources: a parameter.
\<close>

definition init_knots :: "int \<Rightarrow> ImuCameraCalibrator \<Rightarrow> result" where
  "init_knots SPLINE_N st =
     (if dt_so3_ns st = 0 then Inl (DivisionByZero, st)
      else
        (let st1 = st\<lparr>nr_knots_so3 :=
                        int64_div (end_t_ns st - start_t_ns st) (dt_so3_ns st) + SPLINE_N\<rparr>
         in if dt_r3_ns st = 0 then Inl (DivisionByZero, st1)
            else
              (let st2 = st1\<lparr>nr_knots_r3 :=
                              int64_div (end_t_ns st - start_t_ns st) (dt_r3_ns st) + SPLINE_N\<rparr>
               in Inr (call (initAll (spline_init_poses st2) (nr_knots_so3 st2) (nr_knots_r3 st2))
                         st2))))"

text \<open>
  Lines 107 to 114: a reprojection measurement for every stored frame of the window. The
  loop visits the entries \<open>kvs\<close> of \<^verbatim>\<open>calib_corners_\<close> in the order of the iterator of
  the container.
\<close>

fun add_corners ::
  "Reconstruction \<Rightarrow> (TimeCamId \<times> CalibCornerData) list \<Rightarrow> ImuCameraCalibrator \<Rightarrow> result" where
  "add_corners calib_dataset [] st = Inr st"
| "add_corners calib_dataset (kv # kvs) st =
     (if frame_id (fst kv) \<ge> start_t_ns st \<and> frame_id (fst kv) < end_t_ns st then
        (case ViewAt calib_dataset 0 of
           None \<Rightarrow> Inl (NullPointer, st)
         | Some view0 \<Rightarrow>
             add_corners calib_dataset kvs
               (call (addRSCornersMeasurement (snd kv) calib_dataset (GetCamera view0)
                        (frame_id (fst kv))) st))
      else add_corners calib_dataset kvs st)"

text \<open>
  Lines 116 to 144: the accelerometer and the gyroscope. The loops run over the
  measurements and read the timestamp of the same position. The weight of an accepted
  sample is one over the variance.
\<close>

definition store_accel :: "real \<Rightarrow> Vector3d \<Rightarrow> ImuCameraCalibrator \<Rightarrow> ImuCameraCalibrator" where
  "store_accel t accl_unbiased st =
     (call (addAccelMeasurement accl_unbiased (t * 1000000000)
              (1 / var_r3 (spline_weight_data st)) (reestimate_biases st)) st)
       \<lparr>accl_measurements := AList.update t accl_unbiased (accl_measurements st)\<rparr>"

fun add_accel ::
  "real \<Rightarrow> Vector3d \<Rightarrow> Vector3d list \<Rightarrow> real list \<Rightarrow> ImuCameraCalibrator \<Rightarrow> result" where
  "add_accel time_offset accl_bias [] tss st = Inr st"
| "add_accel time_offset accl_bias (m # ms) [] st = Inl (OutOfRange, st)"
| "add_accel time_offset accl_bias (m # ms) (ts # tss) st =
     (let t = ts * 0.001 + time_offset in
      if t < t0_s st \<or> t \<ge> tend_s st then add_accel time_offset accl_bias ms tss st
      else if var_r3 (spline_weight_data st) = 0 then Inl (DivisionByZero, st)
      else add_accel time_offset accl_bias ms tss (store_accel t (vec_add m accl_bias) st))"

definition store_gyro :: "real \<Rightarrow> Vector3d \<Rightarrow> ImuCameraCalibrator \<Rightarrow> ImuCameraCalibrator" where
  "store_gyro t gyro_unbiased st =
     (call (addGyroMeasurement gyro_unbiased (t * 1000000000)
              (1 / var_so3 (spline_weight_data st)) (reestimate_biases st)) st)
       \<lparr>gyro_measurements := AList.update t gyro_unbiased (gyro_measurements st)\<rparr>"

fun add_gyro ::
  "real \<Rightarrow> Vector3d \<Rightarrow> Vector3d list \<Rightarrow> real list \<Rightarrow> ImuCameraCalibrator \<Rightarrow> result" where
  "add_gyro time_offset gyro_bias [] tss st = Inr st"
| "add_gyro time_offset gyro_bias (m # ms) [] st = Inl (OutOfRange, st)"
| "add_gyro time_offset gyro_bias (m # ms) (ts # tss) st =
     (let t = ts * 0.001 + time_offset in
      if t < t0_s st \<or> t \<ge> tend_s st then add_gyro time_offset gyro_bias ms tss st
      else if var_so3 (spline_weight_data st) = 0 then Inl (DivisionByZero, st)
      else add_gyro time_offset gyro_bias ms tss (store_gyro t (vec_add m gyro_bias) st))"

text \<open>
  The header that declares the three maps is not among the sources, and the spec leaves
  their container open ("a sorted map or hash map keyed by the (timestamp, index) pair").
  The order in which the loop of line 108 visits \<^verbatim>\<open>calib_corners_\<close> is therefore a
  parameter, \<open>iteration\<close>: it lists the entries of the map in the order of the iterator.
\<close>

type_synonym corner_iteration =
  "(TimeCamId \<times> CalibCornerData) list \<Rightarrow> (TimeCamId \<times> CalibCornerData) list"

definition InitSpline ::
  "corner_iteration \<Rightarrow> int \<Rightarrow> Reconstruction \<Rightarrow> SE3 \<Rightarrow> SplineWeightingData \<Rightarrow> real \<Rightarrow>
   Vector3d \<Rightarrow> Vector3d \<Rightarrow> CameraTelemetryData \<Rightarrow> ImuCameraCalibrator \<Rightarrow> result" where
  "InitSpline iteration SPLINE_N calib_dataset T_i_c swd time_offset_imu_to_cam gyro_bias
     accl_bias telemetry_data st =
     and_then (and_then (and_then (and_then (and_then (and_then
       (init_line_delay calib_dataset swd (collect_timestamps calib_dataset T_i_c swd st))
       (init_window calib_dataset T_i_c))
       (\<lambda>st. Inr (ingest_views T_i_c calib_dataset st)))
       (init_knots SPLINE_N))
       (\<lambda>st. add_corners calib_dataset (iteration (calib_corners st)) st))
       (\<lambda>st. add_accel time_offset_imu_to_cam accl_bias
               (measurement (accelerometer telemetry_data))
               (timestamp_ms (accelerometer telemetry_data)) st))
       (\<lambda>st. add_gyro time_offset_imu_to_cam gyro_bias
               (measurement (gyroscope telemetry_data))
               (timestamp_ms (gyroscope telemetry_data)) st)"

section \<open>InitializeGravity, Optimize and ClearSpline\<close>

text \<open>
  The inner loop of \<^verbatim>\<open>InitializeGravity\<close> (lines 294 to 308), for one camera timestamp
  and the rotation of its pose. It stops at the end of the measurements or as soon as the
  gravity is initialised. \<^verbatim>\<open>accl_t\<close> is an \<^verbatim>\<open>int64_t\<close>: the timestamp of the sample in
  seconds, without its fraction.
\<close>

fun scan_accelerometer ::
  "Matrix3d \<Rightarrow> real \<Rightarrow> Vector3d \<Rightarrow> Vector3d list \<Rightarrow> real list \<Rightarrow> ImuCameraCalibrator \<Rightarrow> result" where
  "scan_accelerometer R cam_t accl_bias [] tss st = Inr st"
| "scan_accelerometer R cam_t accl_bias (m # ms) tss st =
     (if gravity_initialized st then Inr st
      else
        (case tss of
           [] \<Rightarrow> Inl (OutOfRange, st)
         | ts # tss' \<Rightarrow>
             (let ad = vec_add m accl_bias;
                  accl_t = to_int64 (ts * 0.001)
              in if \<bar>real_of_int accl_t - cam_t\<bar> < 1 / 30
                 then scan_accelerometer R cam_t accl_bias ms tss'
                        (st\<lparr>gravity_init := mat_vec R ad, gravity_initialized := True\<rparr>)
                 else scan_accelerometer R cam_t accl_bias ms tss' st)))"

text \<open>The outer loop (lines 284 to 311), over the camera timestamps.\<close>

fun gravity_loop ::
  "CameraTelemetryData \<Rightarrow> Vector3d \<Rightarrow> real list \<Rightarrow> ImuCameraCalibrator \<Rightarrow> result" where
  "gravity_loop telemetry_data accl_bias [] st = Inr st"
| "gravity_loop telemetry_data accl_bias (cam_t # cam_ts) st =
     (case map_of (calib_init_poses st) (TimeCamId (to_int64 (cam_t * 1000000000)) 0) of
        None \<Rightarrow> gravity_loop telemetry_data accl_bias cam_ts st
      | Some pose \<Rightarrow>
          (let T_a_i = SE3_mult (T_a_c pose) (SE3_inverse (T_i_c_init st))
           in if \<not> gravity_initialized st then
                and_then
                  (scan_accelerometer (so3 T_a_i) cam_t accl_bias
                     (measurement (accelerometer telemetry_data))
                     (timestamp_ms (accelerometer telemetry_data)) st)
                  (gravity_loop telemetry_data accl_bias cam_ts)
              else gravity_loop telemetry_data accl_bias cam_ts st))"

definition InitializeGravity ::
  "CameraTelemetryData \<Rightarrow> Vector3d \<Rightarrow> ImuCameraCalibrator \<Rightarrow> result" where
  "InitializeGravity telemetry_data accl_bias st =
     and_then (gravity_loop telemetry_data accl_bias (cam_timestamps st) st)
       (\<lambda>st. Inr (call (setG (gravity_init st)) st))"

text \<open>
  \<^verbatim>\<open>Optimize\<close> (lines 315 to 321) runs the solver of the trajectory and returns the two
  mean reprojection errors. Both error functions belong to the trajectory: parameters.
\<close>

definition Optimize ::
  "(Trajectory \<Rightarrow> (TimeCamId \<times> CalibCornerData) list \<Rightarrow> real) \<Rightarrow>
   (Trajectory \<Rightarrow> (TimeCamId \<times> CalibCornerData) list \<Rightarrow> real) \<Rightarrow>
   int \<Rightarrow> ImuCameraCalibrator \<Rightarrow> ImuCameraCalibrator \<times> real list" where
  "Optimize meanReprojection meanRSReprojection iterations st =
     (let st' = call (optimize iterations) st
      in (st', [meanReprojection (trajectory st') (calib_corners st'),
                meanRSReprojection (trajectory st') (calib_corners st')]))"

text \<open>\<^verbatim>\<open>ClearSpline\<close> (lines 339 to 347).\<close>

definition ClearSpline :: "ImuCameraCalibrator \<Rightarrow> ImuCameraCalibrator" where
  "ClearSpline st =
     st\<lparr>cam_timestamps := [],
        gyro_measurements := [],
        accl_measurements := [],
        calib_corners := [],
        calib_init_poses := [],
        spline_init_poses := [],
        trajectory := []\<rparr>"

section \<open>Notions used in the statements\<close>

text \<open>The half-open window of the tests at lines 76, 120 and 135.\<close>

definition in_window :: "real \<Rightarrow> real \<Rightarrow> real \<Rightarrow> bool" where
  "in_window t0 tend t = (t0 \<le> t \<and> t < tend)"

definition accepted_views :: "real \<Rightarrow> real \<Rightarrow> View list \<Rightarrow> View list" where
  "accepted_views t0 tend views = filter (\<lambda>v. in_window t0 tend (GetTimestamp v)) views"

text \<open>The key and the three entries that the loop over the views writes for a view.\<close>

definition view_key :: "View \<Rightarrow> TimeCamId" where
  "view_key view = TimeCamId (to_int64 (GetTimestamp view * 1000000000)) 0"

definition corner_data_of :: "View \<Rightarrow> CalibCornerData" where
  "corner_data_of view =
     \<lparr>corners = map snd (features view), track_ids = map fst (features view)\<rparr>"

definition pose_data_of :: "View \<Rightarrow> CalibInitPoseData" where
  "pose_data_of view =
     \<lparr>T_a_c = \<lparr>so3 = transpose3 (GetOrientationAsRotationMatrix (GetCamera view)),
               translation3 = GetPosition (GetCamera view)\<rparr>\<rparr>"

definition spline_pose_data_of :: "SE3 \<Rightarrow> View \<Rightarrow> CalibInitPoseData" where
  "spline_pose_data_of T_i_c view =
     \<lparr>T_a_c = SE3_mult (T_a_c (pose_data_of view)) (SE3_inverse T_i_c)\<rparr>"

text \<open>
  The corrected timestamp of an inertial sample, in seconds, and the samples of a stream
  that lie in the window, each a measurement with its raw timestamp.
\<close>

definition corrected_time :: "real \<Rightarrow> real \<Rightarrow> real" where
  "corrected_time time_offset ts = ts * 0.001 + time_offset"

definition accepted_samples ::
  "real \<Rightarrow> real \<Rightarrow> real \<Rightarrow> Vector3d list \<Rightarrow> real list \<Rightarrow> (Vector3d \<times> real) list" where
  "accepted_samples time_offset t0 tend ms tss =
     filter (\<lambda>(m, ts). in_window t0 tend (corrected_time time_offset ts)) (zip ms tss)"

definition store_sample ::
  "real \<Rightarrow> Vector3d \<Rightarrow> Vector3d \<times> real \<Rightarrow> (real \<times> Vector3d) list \<Rightarrow> (real \<times> Vector3d) list" where
  "store_sample time_offset bias s al =
     AList.update (corrected_time time_offset (snd s)) (vec_add (fst s) bias) al"

text \<open>The calls on the trajectory that set the line delay, and those that add corners.\<close>

fun is_line_delay_call :: "trajectory_call \<Rightarrow> bool" where
  "is_line_delay_call (SetInitialRSLineDelay d) = True"
| "is_line_delay_call c = False"

fun corner_call_frame :: "trajectory_call \<Rightarrow> int option" where
  "corner_call_frame (addRSCornersMeasurement cd ds cam f) = Some f"
| "corner_call_frame c = None"

fun is_corners_call :: "trajectory_call \<Rightarrow> bool" where
  "is_corners_call (addRSCornersMeasurement cd ds cam f) = True"
| "is_corners_call c = False"

text \<open>
  The tolerance of the gravity initialisation, on a time in seconds, and whether a camera
  timestamp has a registered initial pose.
\<close>

definition within_tolerance :: "real \<Rightarrow> real \<Rightarrow> bool" where
  "within_tolerance cam_t t = (\<bar>t - cam_t\<bar> < 1 / 30)"

text \<open>
  The test of line 302, on the raw timestamp of a sample in milliseconds: the tolerance is
  applied to the time in whole seconds that \<^verbatim>\<open>accl_t\<close> holds.
\<close>

definition tolerance_test :: "real \<Rightarrow> real \<Rightarrow> bool" where
  "tolerance_test cam_t ts = within_tolerance cam_t (real_of_int (to_int64 (ts * 0.001)))"

definition registered_pose :: "ImuCameraCalibrator \<Rightarrow> real \<Rightarrow> CalibInitPoseData option" where
  "registered_pose st cam_t =
     map_of (calib_init_poses st) (TimeCamId (to_int64 (cam_t * 1000000000)) 0)"

text \<open>
  The calls that the last three loops of \<^verbatim>\<open>InitSpline\<close> make on the trajectory: one
  for every entry of the list \<open>kvs\<close> whose key lies between the two nanosecond bounds (none
  when no view has id 0), and one for every accepted inertial sample.
\<close>

definition corner_calls ::
  "Reconstruction \<Rightarrow> int \<Rightarrow> int \<Rightarrow> (TimeCamId \<times> CalibCornerData) list \<Rightarrow> trajectory_call list" where
  "corner_calls calib_dataset start_ns end_ns kvs =
     (case ViewAt calib_dataset 0 of
        None \<Rightarrow> []
      | Some view0 \<Rightarrow>
          map (\<lambda>kv. addRSCornersMeasurement (snd kv) calib_dataset (GetCamera view0)
                      (frame_id (fst kv)))
            (filter (\<lambda>kv. start_ns \<le> frame_id (fst kv) \<and> frame_id (fst kv) < end_ns) kvs))"

definition accel_call ::
  "SplineWeightingData \<Rightarrow> bool \<Rightarrow> real \<Rightarrow> Vector3d \<Rightarrow> Vector3d \<times> real \<Rightarrow> trajectory_call" where
  "accel_call swd reestimate time_offset bias s =
     addAccelMeasurement (vec_add (fst s) bias)
       (corrected_time time_offset (snd s) * 1000000000) (1 / var_r3 swd) reestimate"

definition gyro_call ::
  "SplineWeightingData \<Rightarrow> bool \<Rightarrow> real \<Rightarrow> Vector3d \<Rightarrow> Vector3d \<times> real \<Rightarrow> trajectory_call" where
  "gyro_call swd reestimate time_offset bias s =
     addGyroMeasurement (vec_add (fst s) bias)
       (corrected_time time_offset (snd s) * 1000000000) (1 / var_so3 swd) reestimate"

text \<open>
  \<^verbatim>\<open>InitSpline\<close> in closed form: the inputs on which no step is undefined, and the state
  it returns on them. Both are proved of the function below
  (\<open>InitSpline_Inr_iff\<close>).
\<close>

definition InitSpline_defined ::
  "corner_iteration \<Rightarrow> Reconstruction \<Rightarrow> SplineWeightingData \<Rightarrow> real \<Rightarrow>
   CameraTelemetryData \<Rightarrow> ImuCameraCalibrator \<Rightarrow> bool" where
  "InitSpline_defined iteration calib_dataset swd time_offset telemetry_data st =
     (let ts = sort (cam_timestamps st @ map GetTimestamp calib_dataset);
          t0 = Min (set ts);
          tend = Max (set ts);
          cc = fold (\<lambda>v. AList.update (view_key v) (corner_data_of v))
                 (accepted_views t0 tend calib_dataset) (calib_corners st)
      in (calibrate_cam_line_delay st \<longrightarrow>
            calib_dataset \<noteq> [] \<and> cam_fps swd \<noteq> 0 \<and>
            ImageHeight (GetCamera (hd calib_dataset)) \<noteq> 0) \<and>
         ts \<noteq> [] \<and>
         to_int64 (dt_so3 swd * 1000000000) \<noteq> 0 \<and>
         to_int64 (dt_r3 swd * 1000000000) \<noteq> 0 \<and>
         (ViewAt calib_dataset 0 = None \<longrightarrow>
            filter (\<lambda>kv. to_int64 (t0 * 1000000000) \<le> frame_id (fst kv) \<and>
                         frame_id (fst kv) < to_int64 (tend * 1000000000))
              (iteration cc) = []) \<and>
         length (measurement (accelerometer telemetry_data))
           \<le> length (timestamp_ms (accelerometer telemetry_data)) \<and>
         (var_r3 swd = 0 \<longrightarrow>
            accepted_samples time_offset t0 tend (measurement (accelerometer telemetry_data))
              (timestamp_ms (accelerometer telemetry_data)) = []) \<and>
         length (measurement (gyroscope telemetry_data))
           \<le> length (timestamp_ms (gyroscope telemetry_data)) \<and>
         (var_so3 swd = 0 \<longrightarrow>
            accepted_samples time_offset t0 tend (measurement (gyroscope telemetry_data))
              (timestamp_ms (gyroscope telemetry_data)) = []))"

definition InitSpline_state ::
  "corner_iteration \<Rightarrow> int \<Rightarrow> Reconstruction \<Rightarrow> SE3 \<Rightarrow> SplineWeightingData \<Rightarrow> real \<Rightarrow>
   Vector3d \<Rightarrow> Vector3d \<Rightarrow> CameraTelemetryData \<Rightarrow> ImuCameraCalibrator \<Rightarrow>
   ImuCameraCalibrator" where
  "InitSpline_state iteration SPLINE_N calib_dataset T_i_c swd time_offset gyro_bias accl_bias
     telemetry_data st =
     (let ts = sort (cam_timestamps st @ map GetTimestamp calib_dataset);
          t0 = Min (set ts);
          tend = Max (set ts);
          d = (if calibrate_cam_line_delay st
               then (1 / cam_fps swd) *
                    (1 / real_of_int (ImageHeight (GetCamera (hd calib_dataset))))
               else 0);
          start_ns = to_int64 (t0 * 1000000000);
          end_ns = to_int64 (tend * 1000000000);
          so3_ns = to_int64 (dt_so3 swd * 1000000000);
          r3_ns = to_int64 (dt_r3 swd * 1000000000);
          views = accepted_views t0 tend calib_dataset;
          cc = fold (\<lambda>v. AList.update (view_key v) (corner_data_of v)) views (calib_corners st);
          cp = fold (\<lambda>v. AList.update (view_key v) (pose_data_of v)) views
                 (calib_init_poses st);
          sp = fold (\<lambda>v. AList.update (view_key v) (spline_pose_data_of T_i_c v)) views
                 (spline_init_poses st);
          k_so3 = int64_div (end_ns - start_ns) so3_ns + SPLINE_N;
          k_r3 = int64_div (end_ns - start_ns) r3_ns + SPLINE_N;
          acc = accepted_samples time_offset t0 tend
                  (measurement (accelerometer telemetry_data))
                  (timestamp_ms (accelerometer telemetry_data));
          gyr = accepted_samples time_offset t0 tend
                  (measurement (gyroscope telemetry_data))
                  (timestamp_ms (gyroscope telemetry_data))
      in st\<lparr>spline_weight_data := swd,
            T_i_c_init := T_i_c,
            cam_timestamps := ts,
            inital_cam_line_delay_s := d,
            trajectory :=
              trajectory st @
              [SetInitialRSLineDelay d, init_times so3_ns r3_ns start_ns,
               setCalib calib_dataset, setT_i_c T_i_c, initAll sp k_so3 k_r3] @
              corner_calls calib_dataset start_ns end_ns (iteration cc) @
              map (accel_call swd (reestimate_biases st) time_offset accl_bias) acc @
              map (gyro_call swd (reestimate_biases st) time_offset gyro_bias) gyr,
            t0_s := t0,
            tend_s := tend,
            calib_corners := cc,
            calib_init_poses := cp,
            spline_init_poses := sp,
            nr_knots_so3 := k_so3,
            nr_knots_r3 := k_r3,
            accl_measurements := fold (store_sample time_offset accl_bias) acc
                                   (accl_measurements st),
            gyro_measurements := fold (store_sample time_offset gyro_bias) gyr
                                   (gyro_measurements st)\<rparr>)"

section \<open>Example inputs\<close>

text \<open>
  A calibrator before its first use: the containers are empty and the gravity is not
  initialised. The header with the member initialisers is not among the sources; the
  numbers it may leave uninitialised are 0 here, and both switches are off.
\<close>

definition new_calibrator :: ImuCameraCalibrator where
  "new_calibrator =
     \<lparr>spline_weight_data = \<lparr>dt_so3 = 0, dt_r3 = 0, var_so3 = 0, var_r3 = 0, cam_fps = 0\<rparr>,
      T_i_c_init = SE3_identity,
      cam_timestamps = [],
      calibrate_cam_line_delay = False,
      inital_cam_line_delay_s = 0,
      trajectory = [],
      t0_s = 0,
      tend_s = 0,
      calib_corners = [],
      calib_init_poses = [],
      spline_init_poses = [],
      nr_knots_so3 = 0,
      nr_knots_r3 = 0,
      reestimate_biases = False,
      accl_measurements = [],
      gyro_measurements = [],
      gravity_init = (0, 0, 0),
      gravity_initialized = False\<rparr>"

text \<open>One camera timestamp at 10 s with a registered identity pose.\<close>

definition one_frame_registered :: ImuCameraCalibrator where
  "one_frame_registered =
     new_calibrator\<lparr>cam_timestamps := [10],
       calib_init_poses := [(TimeCamId 10000000000 0, \<lparr>T_a_c = SE3_identity\<rparr>)]\<rparr>"

definition one_sample :: "real \<Rightarrow> Vector3d \<Rightarrow> CameraTelemetryData" where
  "one_sample ts m =
     \<lparr>accelerometer = \<lparr>measurement = [m], timestamp_ms = [ts]\<rparr>,
      gyroscope = \<lparr>measurement = [], timestamp_ms = []\<rparr>\<rparr>"

text \<open>A reconstruction of two frames, at 0 s and at 1.5 s, and one of a single frame.\<close>

definition example_camera :: Camera where
  "example_camera =
     \<lparr>GetOrientationAsRotationMatrix = Identity3, GetPosition = (0, 0, 0), ImageHeight = 1000\<rparr>"

definition example_view :: "nat \<Rightarrow> real \<Rightarrow> View" where
  "example_view i t =
     \<lparr>view_id = i, GetTimestamp = t, GetCamera = example_camera, features = [(7, (1, 2))]\<rparr>"

definition two_frames :: Reconstruction where
  "two_frames = [example_view 0 0, example_view 1 1.5]"

definition single_frame :: Reconstruction where
  "single_frame = [example_view 0 5]"

definition example_weights :: SplineWeightingData where
  "example_weights = \<lparr>dt_so3 = 1, dt_r3 = 0.5, var_so3 = 1, var_r3 = 1, cam_fps = 30\<rparr>"

definition example_telemetry :: CameraTelemetryData where
  "example_telemetry =
     \<lparr>accelerometer =
        \<lparr>measurement = [(0, 0, 9.81), (1, 1, 1), (2, 2, 2)], timestamp_ms = [0, 1500, 2000]\<rparr>,
      gyroscope = \<lparr>measurement = [(0, 0, 1)], timestamp_ms = [500]\<rparr>\<rparr>"

text \<open>
  An iteration for the examples, the one of a sorted map: by the timestamp of the key (the
  camera index of every key is 0).
\<close>

definition key_order :: corner_iteration where
  "key_order kvs = sort_key (\<lambda>kv. frame_id (fst kv)) kvs"

text \<open>The states that \<^verbatim>\<open>InitSpline\<close> returns on the two reconstructions, from a new calibrator.\<close>

definition example_final :: ImuCameraCalibrator where
  "example_final =
     new_calibrator
       \<lparr>spline_weight_data := example_weights,
        cam_timestamps := [0, 1.5],
        trajectory :=
          [SetInitialRSLineDelay 0, init_times 1000000000 500000000 0, setCalib two_frames,
           setT_i_c SE3_identity,
           initAll [(TimeCamId 0 0, \<lparr>T_a_c = SE3_identity\<rparr>)] 5 7,
           addRSCornersMeasurement \<lparr>corners = [(1, 2)], track_ids = [7]\<rparr> two_frames
             example_camera 0,
           addAccelMeasurement (0, 0, 9.81) 0 1 False,
           addGyroMeasurement (0, 0, 1) 500000000 1 False],
        t0_s := 0,
        tend_s := 1.5,
        calib_corners := [(TimeCamId 0 0, \<lparr>corners = [(1, 2)], track_ids = [7]\<rparr>)],
        calib_init_poses := [(TimeCamId 0 0, \<lparr>T_a_c = SE3_identity\<rparr>)],
        spline_init_poses := [(TimeCamId 0 0, \<lparr>T_a_c = SE3_identity\<rparr>)],
        nr_knots_so3 := 5,
        nr_knots_r3 := 7,
        accl_measurements := [(0, (0, 0, 9.81))],
        gyro_measurements := [(0.5, (0, 0, 1))]\<rparr>"


text \<open>
  The calibrator after \<^verbatim>\<open>InitSpline\<close> and \<^verbatim>\<open>InitializeGravity\<close> on the two frames:
  the first accelerometer sample initialises the gravity.
\<close>

definition used_calibrator :: ImuCameraCalibrator where
  "used_calibrator =
     example_final
       \<lparr>trajectory := trajectory example_final @ [setG (0, 0, 9.81)],
        gravity_init := (0, 0, 9.81),
        gravity_initialized := True\<rparr>"

text \<open>
  The used calibrator after \<^verbatim>\<open>ClearSpline\<close> and \<^verbatim>\<open>InitSpline\<close> on the two frames
  again.
\<close>

definition reused_calibrator :: ImuCameraCalibrator where
  "reused_calibrator =
     example_final\<lparr>gravity_init := (0, 0, 9.81), gravity_initialized := True\<rparr>"

text \<open>
  A reconstruction that lists its three frames as 1 s, 0 s, 2 s, and the state that
  \<^verbatim>\<open>InitSpline\<close> returns on it from a new calibrator: the maps hold the frame at 1 s
  before the frame at 0 s, the corners are added in the order of the keys.
\<close>

definition three_frames :: Reconstruction where
  "three_frames = [example_view 1 1, example_view 0 0, example_view 2 2]"

definition three_final :: ImuCameraCalibrator where
  "three_final =
     new_calibrator
       \<lparr>spline_weight_data := example_weights,
        cam_timestamps := [0, 1, 2],
        trajectory :=
          [SetInitialRSLineDelay 0, init_times 1000000000 500000000 0, setCalib three_frames,
           setT_i_c SE3_identity,
           initAll [(TimeCamId 1000000000 0, \<lparr>T_a_c = SE3_identity\<rparr>),
                    (TimeCamId 0 0, \<lparr>T_a_c = SE3_identity\<rparr>)] 6 8,
           addRSCornersMeasurement \<lparr>corners = [(1, 2)], track_ids = [7]\<rparr> three_frames
             example_camera 0,
           addRSCornersMeasurement \<lparr>corners = [(1, 2)], track_ids = [7]\<rparr> three_frames
             example_camera 1000000000,
           addAccelMeasurement (0, 0, 9.81) 0 1 False,
           addAccelMeasurement (1, 1, 1) 1500000000 1 False,
           addGyroMeasurement (0, 0, 1) 500000000 1 False],
        t0_s := 0,
        tend_s := 2,
        calib_corners := [(TimeCamId 1000000000 0, \<lparr>corners = [(1, 2)], track_ids = [7]\<rparr>),
                          (TimeCamId 0 0, \<lparr>corners = [(1, 2)], track_ids = [7]\<rparr>)],
        calib_init_poses := [(TimeCamId 1000000000 0, \<lparr>T_a_c = SE3_identity\<rparr>),
                             (TimeCamId 0 0, \<lparr>T_a_c = SE3_identity\<rparr>)],
        spline_init_poses := [(TimeCamId 1000000000 0, \<lparr>T_a_c = SE3_identity\<rparr>),
                              (TimeCamId 0 0, \<lparr>T_a_c = SE3_identity\<rparr>)],
        nr_knots_so3 := 6,
        nr_knots_r3 := 8,
        accl_measurements := [(0, (0, 0, 9.81)), (1.5, (1, 1, 1))],
        gyro_measurements := [(0.5, (0, 0, 1))]\<rparr>"

text \<open>
  Three accelerometer samples, at 3 s, 1 s and 1.02 s: none is near the frame at 0 s, the
  second is the first one near the frame at 1 s.
\<close>

definition scan_telemetry :: CameraTelemetryData where
  "scan_telemetry =
     \<lparr>accelerometer =
        \<lparr>measurement = [(1, 1, 1), (0, 0, 9.81), (3, 3, 3)], timestamp_ms = [3000, 1000, 1020]\<rparr>,
      gyroscope = \<lparr>measurement = [], timestamp_ms = []\<rparr>\<rparr>"

section \<open>Lemmas about the steps of InitSpline\<close>

lemma and_then_Inr_iff: "and_then r f = Inr s \<longleftrightarrow> (\<exists>s'. r = Inr s' \<and> f s' = Inr s)"
  by (cases r) (simp_all add: and_then_def)

lemma and_then_Inr [simp]: "and_then (Inr s) f = f s"
  by (simp add: and_then_def)

lemma and_then_Inl [simp]: "and_then (Inl e) f = Inl e"
  by (simp add: and_then_def)

lemma min_element_less: "xs \<noteq> [] \<Longrightarrow> min_element xs < length xs"
  by (induction xs rule: min_element.induct) (auto simp: Let_def)

lemma max_element_less: "xs \<noteq> [] \<Longrightarrow> max_element xs < length xs"
  by (induction xs rule: max_element.induct) (auto simp: Let_def)

lemma nth_min_element: "xs \<noteq> [] \<Longrightarrow> xs ! min_element xs = Min (set xs)"
proof (induction xs rule: min_element.induct)
  case 1
  then show ?case by simp
next
  case (2 x)
  then show ?case by simp
next
  case (3 x y ys)
  define k where "k = min_element (y # ys)"
  define mn where "mn = Min (set (y # ys))"
  from 3 have IH: "(y # ys) ! k = mn" by (simp add: k_def mn_def)
  have M: "Min (set (x # y # ys)) = min x mn"
    unfolding mn_def list.set(2) [of x "y # ys"] by (rule Min_insert) simp_all
  have "(x # y # ys) ! min_element (x # y # ys) = (if (y # ys) ! k < x then (y # ys) ! k else x)"
    by (simp add: k_def Let_def)
  also have "\<dots> = min x mn"
    unfolding IH by (simp add: min_def)
  finally show ?case unfolding M .
qed

lemma nth_max_element: "xs \<noteq> [] \<Longrightarrow> xs ! max_element xs = Max (set xs)"
proof (induction xs rule: max_element.induct)
  case 1
  then show ?case by simp
next
  case (2 x)
  then show ?case by simp
next
  case (3 x y ys)
  define k where "k = max_element (y # ys)"
  define mx where "mx = Max (set (y # ys))"
  from 3 have IH: "(y # ys) ! k = mx" by (simp add: k_def mx_def)
  have M: "Max (set (x # y # ys)) = max x mx"
    unfolding mx_def list.set(2) [of x "y # ys"] by (rule Max_insert) simp_all
  have "(x # y # ys) ! max_element (x # y # ys) = (if (y # ys) ! k < x then x else (y # ys) ! k)"
    by (simp add: k_def Let_def)
  also have "\<dots> = max x mx"
    unfolding IH by (simp add: max_def)
  finally show ?case unfolding M .
qed

lemma call_simps [simp]:
  "trajectory (call c st) = trajectory st @ [c]"
  "spline_weight_data (call c st) = spline_weight_data st"
  "T_i_c_init (call c st) = T_i_c_init st"
  "cam_timestamps (call c st) = cam_timestamps st"
  "calibrate_cam_line_delay (call c st) = calibrate_cam_line_delay st"
  "inital_cam_line_delay_s (call c st) = inital_cam_line_delay_s st"
  "t0_s (call c st) = t0_s st"
  "tend_s (call c st) = tend_s st"
  "calib_corners (call c st) = calib_corners st"
  "calib_init_poses (call c st) = calib_init_poses st"
  "spline_init_poses (call c st) = spline_init_poses st"
  "nr_knots_so3 (call c st) = nr_knots_so3 st"
  "nr_knots_r3 (call c st) = nr_knots_r3 st"
  "reestimate_biases (call c st) = reestimate_biases st"
  "accl_measurements (call c st) = accl_measurements st"
  "gyro_measurements (call c st) = gyro_measurements st"
  "gravity_init (call c st) = gravity_init st"
  "gravity_initialized (call c st) = gravity_initialized st"
  by (simp_all add: call_def)

lemma call_trajectory_update [simp]:
  "(call c st)\<lparr>trajectory := x\<rparr> = st\<lparr>trajectory := x\<rparr>"
  by (simp add: call_def)

lemma ns_call [simp]:
  "start_t_ns (call c st) = start_t_ns st"
  "end_t_ns (call c st) = end_t_ns st"
  "dt_so3_ns (call c st) = dt_so3_ns st"
  "dt_r3_ns (call c st) = dt_r3_ns st"
  by (simp_all add: start_t_ns_def end_t_ns_def dt_so3_ns_def dt_r3_ns_def)

lemma ingest_views_closed:
  "ingest_views T_i_c views st =
     st\<lparr>calib_corners :=
          fold (\<lambda>v. AList.update (view_key v) (corner_data_of v))
            (accepted_views (t0_s st) (tend_s st) views) (calib_corners st),
        calib_init_poses :=
          fold (\<lambda>v. AList.update (view_key v) (pose_data_of v))
            (accepted_views (t0_s st) (tend_s st) views) (calib_init_poses st),
        spline_init_poses :=
          fold (\<lambda>v. AList.update (view_key v) (spline_pose_data_of T_i_c v))
            (accepted_views (t0_s st) (tend_s st) views) (spline_init_poses st)\<rparr>"
proof (induction views arbitrary: st)
  case Nil
  show ?case by (simp add: accepted_views_def)
next
  case (Cons v views)
  show ?case
  proof (cases "in_window (t0_s st) (tend_s st) (GetTimestamp v)")
    case True
    then have "ingest_views T_i_c (v # views) st = ingest_views T_i_c views (store_view T_i_c v st)"
      by (auto simp: in_window_def)
    also note Cons.IH
    finally show ?thesis using True
      by (simp add: accepted_views_def store_view_def Let_def view_key_def corner_data_of_def
          pose_data_of_def spline_pose_data_of_def)
  next
    case False
    then have "ingest_views T_i_c (v # views) st = ingest_views T_i_c views st"
      by (auto simp: in_window_def)
    also note Cons.IH
    finally show ?thesis using False
      by (simp add: accepted_views_def)
  qed
qed

lemma add_corners_closed:
  "add_corners calib_dataset kvs st = Inr s \<Longrightarrow>
     s = st\<lparr>trajectory := trajectory st @ corner_calls calib_dataset (start_t_ns st) (end_t_ns st) kvs\<rparr>"
proof (induction kvs arbitrary: st)
  case Nil
  then show ?case by (simp add: corner_calls_def split: option.splits)
next
  case (Cons kv kvs)
  show ?case
  proof (cases "start_t_ns st \<le> frame_id (fst kv) \<and> frame_id (fst kv) < end_t_ns st")
    case False
    with Cons.prems have "add_corners calib_dataset kvs st = Inr s" by auto
    from Cons.IH [OF this] False show ?thesis
      by (simp add: corner_calls_def split: option.splits)
  next
    case True
    with Cons.prems obtain view0 where v0: "ViewAt calib_dataset 0 = Some view0"
      and run: "add_corners calib_dataset kvs
           (call (addRSCornersMeasurement (snd kv) calib_dataset (GetCamera view0)
                        (frame_id (fst kv))) st) = Inr s"
      by (auto split: option.splits)
    from Cons.IH [OF run] True v0 show ?thesis
      by (simp add: corner_calls_def)
  qed
qed

lemma store_accel_fields [simp]:
  "t0_s (store_accel t a st) = t0_s st"
  "tend_s (store_accel t a st) = tend_s st"
  "spline_weight_data (store_accel t a st) = spline_weight_data st"
  "reestimate_biases (store_accel t a st) = reestimate_biases st"
  "trajectory (store_accel t a st) =
     trajectory st @ [addAccelMeasurement a (t * 1000000000)
        (1 / var_r3 (spline_weight_data st)) (reestimate_biases st)]"
  "accl_measurements (store_accel t a st) = AList.update t a (accl_measurements st)"
  "(store_accel t a st)\<lparr>trajectory := x, accl_measurements := y\<rparr> =
     st\<lparr>trajectory := x, accl_measurements := y\<rparr>"
  by (simp_all add: store_accel_def call_def)

lemma accepted_samples_Nil [simp]: "accepted_samples off t0 tend [] tss = []"
  by (simp add: accepted_samples_def)

lemma accepted_samples_Cons:
  "accepted_samples off t0 tend (m # ms) (ts # tss) =
     (if in_window t0 tend (corrected_time off ts) then [(m, ts)] else []) @
     accepted_samples off t0 tend ms tss"
  by (simp add: accepted_samples_def)

lemma add_accel_closed:
  "add_accel time_offset bias ms tss st = Inr s \<Longrightarrow>
     s = st\<lparr>trajectory := trajectory st @
               map (accel_call (spline_weight_data st) (reestimate_biases st) time_offset bias)
                 (accepted_samples time_offset (t0_s st) (tend_s st) ms tss),
            accl_measurements :=
               fold (store_sample time_offset bias)
                 (accepted_samples time_offset (t0_s st) (tend_s st) ms tss)
                 (accl_measurements st)\<rparr>"
proof (induction time_offset bias ms tss st rule: add_accel.induct)
  case (1 time_offset accl_bias tss st)
  then show ?case by simp
next
  case (2 time_offset accl_bias m ms st)
  then show ?case by simp
next
  case (3 time_offset accl_bias m ms ts tss st)
  define t where "t = ts * 0.001 + time_offset"
  have t: "corrected_time time_offset ts = t"
    by (simp add: t_def corrected_time_def)
  show ?case
  proof (cases "t < t0_s st \<or> t \<ge> tend_s st")
    case True
    then have out: "\<not> in_window (t0_s st) (tend_s st) t"
      by (auto simp: in_window_def)
    from True "3.prems" have run: "add_accel time_offset accl_bias ms tss st = Inr s"
      by (simp add: t_def Let_def)
    from "3.IH"(1) [OF t_def True run] show ?thesis
      by (simp add: accepted_samples_Cons t out)
  next
    case False
    then have inw: "in_window (t0_s st) (tend_s st) t"
      by (auto simp: in_window_def)
    define st' where "st' = store_accel t (vec_add m accl_bias) st"
    from False "3.prems" have nz: "var_r3 (spline_weight_data st) \<noteq> 0"
      by (auto simp: t_def Let_def split: if_splits)
    from False nz "3.prems" have run: "add_accel time_offset accl_bias ms tss st' = Inr s"
      by (simp add: t_def Let_def st'_def)
    from "3.IH"(2) [OF t_def False nz run [unfolded st'_def]] show ?thesis
      by (simp add: accepted_samples_Cons t inw accel_call_def
          store_sample_def)
  qed
qed

lemma store_gyro_fields [simp]:
  "t0_s (store_gyro t a st) = t0_s st"
  "tend_s (store_gyro t a st) = tend_s st"
  "spline_weight_data (store_gyro t a st) = spline_weight_data st"
  "reestimate_biases (store_gyro t a st) = reestimate_biases st"
  "trajectory (store_gyro t a st) =
     trajectory st @ [addGyroMeasurement a (t * 1000000000)
        (1 / var_so3 (spline_weight_data st)) (reestimate_biases st)]"
  "gyro_measurements (store_gyro t a st) = AList.update t a (gyro_measurements st)"
  "(store_gyro t a st)\<lparr>trajectory := x, gyro_measurements := y\<rparr> =
     st\<lparr>trajectory := x, gyro_measurements := y\<rparr>"
  by (simp_all add: store_gyro_def call_def)

lemma add_gyro_closed:
  "add_gyro time_offset bias ms tss st = Inr s \<Longrightarrow>
     s = st\<lparr>trajectory := trajectory st @
               map (gyro_call (spline_weight_data st) (reestimate_biases st) time_offset bias)
                 (accepted_samples time_offset (t0_s st) (tend_s st) ms tss),
            gyro_measurements :=
               fold (store_sample time_offset bias)
                 (accepted_samples time_offset (t0_s st) (tend_s st) ms tss)
                 (gyro_measurements st)\<rparr>"
proof (induction time_offset bias ms tss st rule: add_gyro.induct)
  case (1 time_offset gyro_bias tss st)
  then show ?case by simp
next
  case (2 time_offset gyro_bias m ms st)
  then show ?case by simp
next
  case (3 time_offset gyro_bias m ms ts tss st)
  define t where "t = ts * 0.001 + time_offset"
  have t: "corrected_time time_offset ts = t"
    by (simp add: t_def corrected_time_def)
  show ?case
  proof (cases "t < t0_s st \<or> t \<ge> tend_s st")
    case True
    then have out: "\<not> in_window (t0_s st) (tend_s st) t"
      by (auto simp: in_window_def)
    from True "3.prems" have run: "add_gyro time_offset gyro_bias ms tss st = Inr s"
      by (simp add: t_def Let_def)
    from "3.IH"(1) [OF t_def True run] show ?thesis
      by (simp add: accepted_samples_Cons t out)
  next
    case False
    then have inw: "in_window (t0_s st) (tend_s st) t"
      by (auto simp: in_window_def)
    define st' where "st' = store_gyro t (vec_add m gyro_bias) st"
    from False "3.prems" have nz: "var_so3 (spline_weight_data st) \<noteq> 0"
      by (auto simp: t_def Let_def split: if_splits)
    from False nz "3.prems" have run: "add_gyro time_offset gyro_bias ms tss st' = Inr s"
      by (simp add: t_def Let_def st'_def)
    from "3.IH"(2) [OF t_def False nz run [unfolded st'_def]] show ?thesis
      by (simp add: accepted_samples_Cons t inw gyro_call_def
          store_sample_def)
  qed
qed

lemma init_line_delay_closed:
  assumes "init_line_delay calib_dataset swd st = Inr s"
  shows "s = set_line_delay
           (if calibrate_cam_line_delay st
            then (1 / cam_fps swd) * (1 / real_of_int (ImageHeight (GetCamera (hd calib_dataset))))
            else 0) st"
    and "calibrate_cam_line_delay st \<Longrightarrow> calib_dataset \<noteq> []"
  using assms by (auto simp: init_line_delay_def split: if_splits list.splits)

lemma init_window_closed:
  assumes "init_window calib_dataset T_i_c st = Inr s"
  shows "cam_timestamps st \<noteq> []"
    and "s = st\<lparr>t0_s := Min (set (cam_timestamps st)),
              tend_s := Max (set (cam_timestamps st)),
              trajectory := trajectory st @
                [init_times (dt_so3_ns st) (dt_r3_ns st)
                   (to_int64 (Min (set (cam_timestamps st)) * 1000000000)),
                 setCalib calib_dataset, setT_i_c T_i_c]\<rparr>"
proof -
  from assms show ne: "cam_timestamps st \<noteq> []"
    by (auto simp: init_window_def split: list.splits)
  then obtain x xs where xs: "cam_timestamps st = x # xs"
    by (cases "cam_timestamps st") auto
  have mn: "cam_timestamps st ! min_element (cam_timestamps st) = Min (set (cam_timestamps st))"
    and mx: "cam_timestamps st ! max_element (cam_timestamps st) = Max (set (cam_timestamps st))"
    using ne by (rule nth_min_element, rule nth_max_element)
  from assms have "s = call (setT_i_c T_i_c)
                (call (setCalib calib_dataset)
                  (call (init_times
                      (dt_so3_ns (st\<lparr>t0_s := Min (set (cam_timestamps st)),
                        tend_s := Max (set (cam_timestamps st))\<rparr>))
                      (dt_r3_ns (st\<lparr>t0_s := Min (set (cam_timestamps st)),
                        tend_s := Max (set (cam_timestamps st))\<rparr>))
                      (start_t_ns (st\<lparr>t0_s := Min (set (cam_timestamps st)),
                        tend_s := Max (set (cam_timestamps st))\<rparr>)))
                   (st\<lparr>t0_s := Min (set (cam_timestamps st)),
                        tend_s := Max (set (cam_timestamps st))\<rparr>)))"
    unfolding init_window_def mn mx Let_def xs [symmetric] by (simp add: xs)
  then show "s = st\<lparr>t0_s := Min (set (cam_timestamps st)),
              tend_s := Max (set (cam_timestamps st)),
              trajectory := trajectory st @
                [init_times (dt_so3_ns st) (dt_r3_ns st)
                   (to_int64 (Min (set (cam_timestamps st)) * 1000000000)),
                 setCalib calib_dataset, setT_i_c T_i_c]\<rparr>"
    by (simp add: call_def dt_so3_ns_def dt_r3_ns_def start_t_ns_def)
qed

lemma init_knots_closed:
  assumes "init_knots SPLINE_N st = Inr s"
  shows "dt_so3_ns st \<noteq> 0" and "dt_r3_ns st \<noteq> 0"
    and "s = st\<lparr>nr_knots_so3 := int64_div (end_t_ns st - start_t_ns st) (dt_so3_ns st) + SPLINE_N,
              nr_knots_r3 := int64_div (end_t_ns st - start_t_ns st) (dt_r3_ns st) + SPLINE_N,
              trajectory := trajectory st @
                [initAll (spline_init_poses st)
                   (int64_div (end_t_ns st - start_t_ns st) (dt_so3_ns st) + SPLINE_N)
                   (int64_div (end_t_ns st - start_t_ns st) (dt_r3_ns st) + SPLINE_N)]\<rparr>"
  using assms by (auto simp: init_knots_def Let_def call_def split: if_splits)

lemma add_corners_Inr_iff:
  "(\<exists>s. add_corners calib_dataset kvs st = Inr s) \<longleftrightarrow>
     (ViewAt calib_dataset 0 = None \<longrightarrow>
        filter (\<lambda>kv. start_t_ns st \<le> frame_id (fst kv) \<and> frame_id (fst kv) < end_t_ns st) kvs = [])"
proof (induction kvs arbitrary: st)
  case Nil
  show ?case by simp
next
  case (Cons kv kvs)
  show ?case
  proof (cases "start_t_ns st \<le> frame_id (fst kv) \<and> frame_id (fst kv) < end_t_ns st")
    case False
    then show ?thesis using Cons.IH [of st] by auto
  next
    case True
    show ?thesis
    proof (cases "ViewAt calib_dataset 0")
      case None
      with True show ?thesis by simp
    next
      case (Some view0)
      with True Cons.IH [of "call (addRSCornersMeasurement (snd kv) calib_dataset
          (GetCamera view0) (frame_id (fst kv))) st"]
      show ?thesis by simp
    qed
  qed
qed

lemma add_accel_Inr_iff:
  "(\<exists>s. add_accel time_offset bias ms tss st = Inr s) \<longleftrightarrow>
     length ms \<le> length tss \<and>
     (var_r3 (spline_weight_data st) = 0 \<longrightarrow>
        accepted_samples time_offset (t0_s st) (tend_s st) ms tss = [])"
proof (induction time_offset bias ms tss st rule: add_accel.induct)
  case (1 time_offset accl_bias tss st)
  show ?case by simp
next
  case (2 time_offset accl_bias m ms st)
  show ?case by simp
next
  case (3 time_offset accl_bias m ms ts tss st)
  define t where "t = ts * 0.001 + time_offset"
  have t: "corrected_time time_offset ts = t"
    by (simp add: t_def corrected_time_def)
  show ?case
  proof (cases "t < t0_s st \<or> t \<ge> tend_s st")
    case True
    then have out: "\<not> in_window (t0_s st) (tend_s st) t"
      by (auto simp: in_window_def)
    have eq: "add_accel time_offset accl_bias (m # ms) (ts # tss) st =
        add_accel time_offset accl_bias ms tss st"
      using True by (simp add: t_def Let_def)
    show ?thesis unfolding eq using "3.IH"(1) [OF t_def True]
      by (simp add: accepted_samples_Cons t out)
  next
    case False
    then have inw: "in_window (t0_s st) (tend_s st) t"
      by (auto simp: in_window_def)
    show ?thesis
    proof (cases "var_r3 (spline_weight_data st) = 0")
      case True
      have eq: "add_accel time_offset accl_bias (m # ms) (ts # tss) st = Inl (DivisionByZero, st)"
        using False True by (simp add: t_def Let_def)
      show ?thesis unfolding eq using True
        by (simp add: accepted_samples_Cons t inw)
    next
      case nz: False
      have eq: "add_accel time_offset accl_bias (m # ms) (ts # tss) st =
          add_accel time_offset accl_bias ms tss (store_accel t (vec_add m accl_bias) st)"
        using False nz by (simp add: t_def Let_def)
      show ?thesis unfolding eq using "3.IH"(2) [OF t_def False nz] nz
        by (simp add: accepted_samples_Cons t inw)
    qed
  qed
qed

lemma add_gyro_Inr_iff:
  "(\<exists>s. add_gyro time_offset bias ms tss st = Inr s) \<longleftrightarrow>
     length ms \<le> length tss \<and>
     (var_so3 (spline_weight_data st) = 0 \<longrightarrow>
        accepted_samples time_offset (t0_s st) (tend_s st) ms tss = [])"
proof (induction time_offset bias ms tss st rule: add_gyro.induct)
  case (1 time_offset gyro_bias tss st)
  show ?case by simp
next
  case (2 time_offset gyro_bias m ms st)
  show ?case by simp
next
  case (3 time_offset gyro_bias m ms ts tss st)
  define t where "t = ts * 0.001 + time_offset"
  have t: "corrected_time time_offset ts = t"
    by (simp add: t_def corrected_time_def)
  show ?case
  proof (cases "t < t0_s st \<or> t \<ge> tend_s st")
    case True
    then have out: "\<not> in_window (t0_s st) (tend_s st) t"
      by (auto simp: in_window_def)
    have eq: "add_gyro time_offset gyro_bias (m # ms) (ts # tss) st =
        add_gyro time_offset gyro_bias ms tss st"
      using True by (simp add: t_def Let_def)
    show ?thesis unfolding eq using "3.IH"(1) [OF t_def True]
      by (simp add: accepted_samples_Cons t out)
  next
    case False
    then have inw: "in_window (t0_s st) (tend_s st) t"
      by (auto simp: in_window_def)
    show ?thesis
    proof (cases "var_so3 (spline_weight_data st) = 0")
      case True
      have eq: "add_gyro time_offset gyro_bias (m # ms) (ts # tss) st = Inl (DivisionByZero, st)"
        using False True by (simp add: t_def Let_def)
      show ?thesis unfolding eq using True
        by (simp add: accepted_samples_Cons t inw)
    next
      case nz: False
      have eq: "add_gyro time_offset gyro_bias (m # ms) (ts # tss) st =
          add_gyro time_offset gyro_bias ms tss (store_gyro t (vec_add m gyro_bias) st)"
        using False nz by (simp add: t_def Let_def)
      show ?thesis unfolding eq using "3.IH"(2) [OF t_def False nz] nz
        by (simp add: accepted_samples_Cons t inw)
    qed
  qed
qed

lemma init_line_delay_Inr_iff:
  "(\<exists>s. init_line_delay calib_dataset swd st = Inr s) \<longleftrightarrow>
     (calibrate_cam_line_delay st \<longrightarrow>
        calib_dataset \<noteq> [] \<and> cam_fps swd \<noteq> 0 \<and>
        ImageHeight (GetCamera (hd calib_dataset)) \<noteq> 0)"
  by (auto simp: init_line_delay_def split: list.splits)

lemma init_window_Inr_iff:
  "(\<exists>s. init_window calib_dataset T_i_c st = Inr s) \<longleftrightarrow> cam_timestamps st \<noteq> []"
  by (auto simp: init_window_def Let_def split: list.splits)

lemma init_knots_Inr_iff:
  "(\<exists>s. init_knots SPLINE_N st = Inr s) \<longleftrightarrow> dt_so3_ns st \<noteq> 0 \<and> dt_r3_ns st \<noteq> 0"
  by (auto simp: init_knots_def Let_def)

lemma Inr_iffI:
  assumes "\<And>s. r = Inr s \<Longrightarrow> s = g" and "(\<exists>s. r = Inr s) \<longleftrightarrow> P"
  shows "r = Inr s \<longleftrightarrow> P \<and> s = g"
proof
  assume "r = Inr s"
  with assms show "P \<and> s = g" by blast
next
  assume "P \<and> s = g"
  with assms(2) obtain s' where "r = Inr s'" by blast
  with assms(1) \<open>P \<and> s = g\<close> show "r = Inr s" by simp
qed

lemma init_line_delay_iff:
  "init_line_delay calib_dataset swd st = Inr s \<longleftrightarrow>
     (calibrate_cam_line_delay st \<longrightarrow>
        calib_dataset \<noteq> [] \<and> cam_fps swd \<noteq> 0 \<and>
        ImageHeight (GetCamera (hd calib_dataset)) \<noteq> 0) \<and>
     s = set_line_delay
           (if calibrate_cam_line_delay st
            then (1 / cam_fps swd) * (1 / real_of_int (ImageHeight (GetCamera (hd calib_dataset))))
            else 0) st"
  by (auto simp: init_line_delay_def split: list.splits)

lemma init_window_iff:
  "init_window calib_dataset T_i_c st = Inr s \<longleftrightarrow>
     cam_timestamps st \<noteq> [] \<and>
     s = st\<lparr>t0_s := Min (set (cam_timestamps st)),
            tend_s := Max (set (cam_timestamps st)),
            trajectory := trajectory st @
              [init_times (dt_so3_ns st) (dt_r3_ns st)
                 (to_int64 (Min (set (cam_timestamps st)) * 1000000000)),
               setCalib calib_dataset, setT_i_c T_i_c]\<rparr>"
  by (rule Inr_iffI [OF init_window_closed(2) init_window_Inr_iff])

lemma init_knots_iff:
  "init_knots SPLINE_N st = Inr s \<longleftrightarrow>
     dt_so3_ns st \<noteq> 0 \<and> dt_r3_ns st \<noteq> 0 \<and>
     s = st\<lparr>nr_knots_so3 := int64_div (end_t_ns st - start_t_ns st) (dt_so3_ns st) + SPLINE_N,
            nr_knots_r3 := int64_div (end_t_ns st - start_t_ns st) (dt_r3_ns st) + SPLINE_N,
            trajectory := trajectory st @
              [initAll (spline_init_poses st)
                 (int64_div (end_t_ns st - start_t_ns st) (dt_so3_ns st) + SPLINE_N)
                 (int64_div (end_t_ns st - start_t_ns st) (dt_r3_ns st) + SPLINE_N)]\<rparr>"
  using Inr_iffI [OF init_knots_closed(3) init_knots_Inr_iff] by (simp add: conj_assoc)

lemma add_corners_iff:
  "add_corners calib_dataset kvs st = Inr s \<longleftrightarrow>
     (ViewAt calib_dataset 0 = None \<longrightarrow>
        filter (\<lambda>kv. start_t_ns st \<le> frame_id (fst kv) \<and> frame_id (fst kv) < end_t_ns st) kvs = []) \<and>
     s = st\<lparr>trajectory := trajectory st @
              corner_calls calib_dataset (start_t_ns st) (end_t_ns st) kvs\<rparr>"
  by (rule Inr_iffI [OF add_corners_closed add_corners_Inr_iff])

lemma add_accel_iff:
  "add_accel time_offset bias ms tss st = Inr s \<longleftrightarrow>
     (length ms \<le> length tss \<and>
      (var_r3 (spline_weight_data st) = 0 \<longrightarrow>
         accepted_samples time_offset (t0_s st) (tend_s st) ms tss = [])) \<and>
     s = st\<lparr>trajectory := trajectory st @
               map (accel_call (spline_weight_data st) (reestimate_biases st) time_offset bias)
                 (accepted_samples time_offset (t0_s st) (tend_s st) ms tss),
            accl_measurements :=
               fold (store_sample time_offset bias)
                 (accepted_samples time_offset (t0_s st) (tend_s st) ms tss)
                 (accl_measurements st)\<rparr>"
  by (rule Inr_iffI [OF add_accel_closed add_accel_Inr_iff])

lemma add_gyro_iff:
  "add_gyro time_offset bias ms tss st = Inr s \<longleftrightarrow>
     (length ms \<le> length tss \<and>
      (var_so3 (spline_weight_data st) = 0 \<longrightarrow>
         accepted_samples time_offset (t0_s st) (tend_s st) ms tss = [])) \<and>
     s = st\<lparr>trajectory := trajectory st @
               map (gyro_call (spline_weight_data st) (reestimate_biases st) time_offset bias)
                 (accepted_samples time_offset (t0_s st) (tend_s st) ms tss),
            gyro_measurements :=
               fold (store_sample time_offset bias)
                 (accepted_samples time_offset (t0_s st) (tend_s st) ms tss)
                 (gyro_measurements st)\<rparr>"
  by (rule Inr_iffI [OF add_gyro_closed add_gyro_Inr_iff])

subsection \<open>InitSpline as a whole\<close>

lemma InitSpline_Inr_iff:
  "InitSpline iteration SPLINE_N calib_dataset T_i_c swd time_offset gyro_bias accl_bias telemetry_data st
     = Inr s \<longleftrightarrow>
   InitSpline_defined iteration calib_dataset swd time_offset telemetry_data st \<and>
   s = InitSpline_state iteration SPLINE_N calib_dataset T_i_c swd time_offset gyro_bias accl_bias
         telemetry_data st"
proof -
  define ts where "ts = sort (cam_timestamps st @ map GetTimestamp calib_dataset)"
  define t0 where "t0 = Min (set ts)"
  define tend where "tend = Max (set ts)"
  define d where "d = (if calibrate_cam_line_delay st
               then (1 / cam_fps swd) *
                    (1 / real_of_int (ImageHeight (GetCamera (hd calib_dataset))))
               else 0)"
  define start_ns where "start_ns = to_int64 (t0 * 1000000000)"
  define end_ns where "end_ns = to_int64 (tend * 1000000000)"
  define so3_ns where "so3_ns = to_int64 (dt_so3 swd * 1000000000)"
  define r3_ns where "r3_ns = to_int64 (dt_r3 swd * 1000000000)"
  define views where "views = accepted_views t0 tend calib_dataset"
  define cc where "cc = fold (\<lambda>v. AList.update (view_key v) (corner_data_of v)) views
                          (calib_corners st)"
  define cp where "cp = fold (\<lambda>v. AList.update (view_key v) (pose_data_of v)) views
                          (calib_init_poses st)"
  define sp where "sp = fold (\<lambda>v. AList.update (view_key v) (spline_pose_data_of T_i_c v)) views
                          (spline_init_poses st)"
  define k_so3 where "k_so3 = int64_div (end_ns - start_ns) so3_ns + SPLINE_N"
  define k_r3 where "k_r3 = int64_div (end_ns - start_ns) r3_ns + SPLINE_N"
  define acc where "acc = accepted_samples time_offset t0 tend
                  (measurement (accelerometer telemetry_data))
                  (timestamp_ms (accelerometer telemetry_data))"
  define gyr where "gyr = accepted_samples time_offset t0 tend
                  (measurement (gyroscope telemetry_data))
                  (timestamp_ms (gyroscope telemetry_data))"
  define tr1 where "tr1 = trajectory st @ [SetInitialRSLineDelay d]"
  define tr2 where "tr2 = tr1 @ [init_times so3_ns r3_ns start_ns, setCalib calib_dataset,
                                 setT_i_c T_i_c]"
  define tr4 where "tr4 = tr2 @ [initAll sp k_so3 k_r3]"
  define tr5 where "tr5 = tr4 @ corner_calls calib_dataset start_ns end_ns (iteration cc)"
  define tr6 where "tr6 = tr5 @ map (accel_call swd (reestimate_biases st) time_offset accl_bias) acc"
  define tr7 where "tr7 = tr6 @ map (gyro_call swd (reestimate_biases st) time_offset gyro_bias) gyr"
  define s1 where "s1 = st\<lparr>spline_weight_data := swd, T_i_c_init := T_i_c,
                            cam_timestamps := ts, inital_cam_line_delay_s := d,
                            trajectory := tr1\<rparr>"
  define s2 where "s2 = s1\<lparr>trajectory := tr2, t0_s := t0, tend_s := tend\<rparr>"
  define s3 where "s3 = s2\<lparr>calib_corners := cc, calib_init_poses := cp,
                            spline_init_poses := sp\<rparr>"
  define s4 where "s4 = s3\<lparr>trajectory := tr4, nr_knots_so3 := k_so3, nr_knots_r3 := k_r3\<rparr>"
  define s5 where "s5 = s4\<lparr>trajectory := tr5\<rparr>"
  define s6 where "s6 = s5\<lparr>trajectory := tr6,
                            accl_measurements := fold (store_sample time_offset accl_bias) acc
                                                   (accl_measurements st)\<rparr>"
  define s7 where "s7 = s6\<lparr>trajectory := tr7,
                            gyro_measurements := fold (store_sample time_offset gyro_bias) gyr
                                                   (gyro_measurements st)\<rparr>"
  obtain f1 f2 f3 f4 f5 f6 f7 f8 f9 f10 f11 f12 f13 f14 f15 f16 f17 f18 where
    st: "st = \<lparr>spline_weight_data = f1, T_i_c_init = f2, cam_timestamps = f3,
      calibrate_cam_line_delay = f4, inital_cam_line_delay_s = f5, trajectory = f6,
      t0_s = f7, tend_s = f8, calib_corners = f9, calib_init_poses = f10,
      spline_init_poses = f11, nr_knots_so3 = f12, nr_knots_r3 = f13,
      reestimate_biases = f14, accl_measurements = f15, gyro_measurements = f16,
      gravity_init = f17, gravity_initialized = f18\<rparr>"
    by (cases st)
  have p1: "init_line_delay calib_dataset swd (collect_timestamps calib_dataset T_i_c swd st)
              = Inr a \<longleftrightarrow>
            (calibrate_cam_line_delay st \<longrightarrow>
               calib_dataset \<noteq> [] \<and> cam_fps swd \<noteq> 0 \<and>
               ImageHeight (GetCamera (hd calib_dataset)) \<noteq> 0) \<and> a = s1"
    for a
    by (simp add: init_line_delay_iff collect_timestamps_def set_line_delay_def call_def
        s1_def tr1_def d_def ts_def st)
  have p2: "init_window calib_dataset T_i_c s1 = Inr a \<longleftrightarrow> ts \<noteq> [] \<and> a = s2" for a
    by (simp add: init_window_iff s1_def s2_def tr2_def dt_so3_ns_def dt_r3_ns_def
        so3_ns_def r3_ns_def start_ns_def t0_def tend_def st)
  have p3: "ingest_views T_i_c calib_dataset s2 = s3"
    by (simp add: ingest_views_closed s2_def s1_def s3_def cc_def cp_def sp_def views_def st)
  have p4: "init_knots SPLINE_N s3 = Inr a \<longleftrightarrow> so3_ns \<noteq> 0 \<and> r3_ns \<noteq> 0 \<and> a = s4" for a
    by (simp add: init_knots_iff s3_def s2_def s1_def s4_def tr4_def dt_so3_ns_def dt_r3_ns_def
        start_t_ns_def end_t_ns_def so3_ns_def r3_ns_def start_ns_def end_ns_def
        k_so3_def k_r3_def st)
  have p5: "add_corners calib_dataset (iteration (calib_corners s4)) s4 = Inr a \<longleftrightarrow>
             (ViewAt calib_dataset 0 = None \<longrightarrow>
                filter (\<lambda>kv. start_ns \<le> frame_id (fst kv) \<and> frame_id (fst kv) < end_ns)
                  (iteration cc) = []) \<and>
             a = s5" for a
    by (simp add: add_corners_iff s4_def s3_def s2_def s1_def s5_def tr5_def
        start_t_ns_def end_t_ns_def start_ns_def end_ns_def st)
  have p6: "add_accel time_offset accl_bias (measurement (accelerometer telemetry_data))
              (timestamp_ms (accelerometer telemetry_data)) s5 = Inr a \<longleftrightarrow>
             (length (measurement (accelerometer telemetry_data))
               \<le> length (timestamp_ms (accelerometer telemetry_data)) \<and>
              (var_r3 swd = 0 \<longrightarrow> acc = [])) \<and> a = s6" for a
    by (simp add: add_accel_iff s5_def s4_def s3_def s2_def s1_def s6_def tr6_def acc_def st)
  have p7: "add_gyro time_offset gyro_bias (measurement (gyroscope telemetry_data))
              (timestamp_ms (gyroscope telemetry_data)) s6 = Inr a \<longleftrightarrow>
             (length (measurement (gyroscope telemetry_data))
               \<le> length (timestamp_ms (gyroscope telemetry_data)) \<and>
              (var_so3 swd = 0 \<longrightarrow> gyr = [])) \<and> a = s7" for a
    by (simp add: add_gyro_iff s6_def s5_def s4_def s3_def s2_def s1_def s7_def tr7_def gyr_def st)
  have run: "InitSpline iteration SPLINE_N calib_dataset T_i_c swd time_offset gyro_bias accl_bias
       telemetry_data st = Inr s \<longleftrightarrow>
     (calibrate_cam_line_delay st \<longrightarrow>
        calib_dataset \<noteq> [] \<and> cam_fps swd \<noteq> 0 \<and>
        ImageHeight (GetCamera (hd calib_dataset)) \<noteq> 0) \<and> ts \<noteq> [] \<and>
     so3_ns \<noteq> 0 \<and> r3_ns \<noteq> 0 \<and>
     (ViewAt calib_dataset 0 = None \<longrightarrow>
        filter (\<lambda>kv. start_ns \<le> frame_id (fst kv) \<and> frame_id (fst kv) < end_ns)
          (iteration cc) = []) \<and>
     length (measurement (accelerometer telemetry_data))
       \<le> length (timestamp_ms (accelerometer telemetry_data)) \<and>
     (var_r3 swd = 0 \<longrightarrow> acc = []) \<and>
     length (measurement (gyroscope telemetry_data))
       \<le> length (timestamp_ms (gyroscope telemetry_data)) \<and>
     (var_so3 swd = 0 \<longrightarrow> gyr = []) \<and> s = s7"
    by (auto simp: InitSpline_def and_then_Inr_iff p1 p2 p3 p4 p5 p6 p7)
  have defined: "InitSpline_defined iteration calib_dataset swd time_offset telemetry_data st \<longleftrightarrow>
     (calibrate_cam_line_delay st \<longrightarrow>
        calib_dataset \<noteq> [] \<and> cam_fps swd \<noteq> 0 \<and>
        ImageHeight (GetCamera (hd calib_dataset)) \<noteq> 0) \<and> ts \<noteq> [] \<and>
     so3_ns \<noteq> 0 \<and> r3_ns \<noteq> 0 \<and>
     (ViewAt calib_dataset 0 = None \<longrightarrow>
        filter (\<lambda>kv. start_ns \<le> frame_id (fst kv) \<and> frame_id (fst kv) < end_ns)
          (iteration cc) = []) \<and>
     length (measurement (accelerometer telemetry_data))
       \<le> length (timestamp_ms (accelerometer telemetry_data)) \<and>
     (var_r3 swd = 0 \<longrightarrow> acc = []) \<and>
     length (measurement (gyroscope telemetry_data))
       \<le> length (timestamp_ms (gyroscope telemetry_data)) \<and>
     (var_so3 swd = 0 \<longrightarrow> gyr = [])"
    unfolding InitSpline_defined_def Let_def ts_def [symmetric] t0_def [symmetric]
      tend_def [symmetric] views_def [symmetric] cc_def [symmetric] start_ns_def [symmetric]
      end_ns_def [symmetric] so3_ns_def [symmetric] r3_ns_def [symmetric] acc_def [symmetric]
      gyr_def [symmetric]
    by (rule refl)
  have state: "InitSpline_state iteration SPLINE_N calib_dataset T_i_c swd time_offset gyro_bias accl_bias
         telemetry_data st = s7"
    unfolding InitSpline_state_def Let_def ts_def [symmetric] t0_def [symmetric]
      tend_def [symmetric] d_def [symmetric] views_def [symmetric] cc_def [symmetric]
      cp_def [symmetric] sp_def [symmetric] start_ns_def [symmetric]
      end_ns_def [symmetric] so3_ns_def [symmetric] r3_ns_def [symmetric] k_so3_def [symmetric]
      k_r3_def [symmetric] acc_def [symmetric] gyr_def [symmetric]
    by (simp add: s7_def s6_def s5_def s4_def s3_def s2_def s1_def tr7_def tr6_def tr5_def
        tr4_def tr2_def tr1_def st)
  show ?thesis unfolding run defined state by blast
qed

section \<open>The example runs\<close>

lemmas example_defs =
  new_calibrator_def two_frames_def single_frame_def three_frames_def example_view_def
  example_camera_def example_weights_def example_telemetry_def SE3_identity_def Identity3_def
  key_order_def

lemmas InitSpline_eval =
  InitSpline_def collect_timestamps_def init_line_delay_def set_line_delay_def init_window_def
  init_knots_def store_view_def store_accel_def store_gyro_def call_def and_then_def
  start_t_ns_def end_t_ns_def dt_so3_ns_def dt_r3_ns_def to_int64_def int64_div_def
  ViewAt_def SE3_mult_def SE3_inverse_def Let_def

lemma key_order_mset: "\<forall>kvs. mset (key_order kvs) = mset kvs"
  by (simp add: key_order_def)

lemma example_run:
  "InitSpline key_order 4 two_frames SE3_identity example_weights 0 (0, 0, 0) (0, 0, 0)
     example_telemetry new_calibrator = Inr example_final"
  by (simp add: InitSpline_eval example_defs example_final_def)


lemma three_run:
  "InitSpline key_order 4 three_frames SE3_identity example_weights 0 (0, 0, 0) (0, 0, 0)
     example_telemetry new_calibrator = Inr three_final"
  by (simp add: InitSpline_eval example_defs three_final_def)

lemma reused_run:
  "InitSpline key_order 4 two_frames SE3_identity example_weights 0 (0, 0, 0) (0, 0, 0)
     example_telemetry (ClearSpline used_calibrator) = Inr reused_calibrator"
  by (simp add: InitSpline_eval example_defs example_final_def used_calibrator_def
      reused_calibrator_def ClearSpline_def)

lemma InitializeGravity_example:
  "InitializeGravity example_telemetry (0, 0, 0) example_final = Inr used_calibrator"
  by (simp add: InitializeGravity_def and_then_def call_def used_calibrator_def example_final_def
      new_calibrator_def example_telemetry_def to_int64_def SE3_mult_def SE3_inverse_def
      SE3_identity_def Identity3_def)

section \<open>The state that InitSpline returns\<close>

lemma to_int64_mono: "x \<le> y \<Longrightarrow> to_int64 x \<le> to_int64 y"
proof -
  assume xy: "x \<le> y"
  have fc: "\<lfloor>x\<rfloor> \<le> \<lceil>y\<rceil>"
    using xy by (meson floor_le_ceiling floor_mono order_trans)
  have cf: "x < 0 \<Longrightarrow> 0 \<le> y \<Longrightarrow> \<lceil>x\<rceil> \<le> \<lfloor>y\<rfloor>"
  proof -
    assume "x < 0" "0 \<le> y"
    then have "\<lceil>x\<rceil> \<le> 0" "0 \<le> \<lfloor>y\<rfloor>" by (simp_all add: ceiling_le_zero)
    then show ?thesis by linarith
  qed
  show ?thesis
    using xy fc cf by (auto simp: to_int64_def floor_mono ceiling_mono)
qed

lemma int64_div_nonneg: "0 \<le> a \<Longrightarrow> 0 < b \<Longrightarrow> int64_div a b = a div b"
  by (cases "a = 0") (simp_all add: int64_div_def)

lemma Min_le_Max_list: "xs \<noteq> [] \<Longrightarrow> Min (set xs) \<le> Max (set xs)"
  by (simp add: Min_le_iff)

lemma InitSpline_state_fields:
  "spline_weight_data (InitSpline_state it n ds T swd off gb ab tel st) = swd"
  "T_i_c_init (InitSpline_state it n ds T swd off gb ab tel st) = T"
  "cam_timestamps (InitSpline_state it n ds T swd off gb ab tel st) =
     sort (cam_timestamps st @ map GetTimestamp ds)"
  "calibrate_cam_line_delay (InitSpline_state it n ds T swd off gb ab tel st) =
     calibrate_cam_line_delay st"
  "reestimate_biases (InitSpline_state it n ds T swd off gb ab tel st) = reestimate_biases st"
  "gravity_init (InitSpline_state it n ds T swd off gb ab tel st) = gravity_init st"
  "gravity_initialized (InitSpline_state it n ds T swd off gb ab tel st) = gravity_initialized st"
  "t0_s (InitSpline_state it n ds T swd off gb ab tel st) =
     Min (set (sort (cam_timestamps st @ map GetTimestamp ds)))"
  "tend_s (InitSpline_state it n ds T swd off gb ab tel st) =
     Max (set (sort (cam_timestamps st @ map GetTimestamp ds)))"
  "inital_cam_line_delay_s (InitSpline_state it n ds T swd off gb ab tel st) =
     (if calibrate_cam_line_delay st
      then (1 / cam_fps swd) * (1 / real_of_int (ImageHeight (GetCamera (hd ds)))) else 0)"
  by (simp_all add: InitSpline_state_def Let_def)

lemma InitSpline_state_maps:
  "calib_corners (InitSpline_state it n ds T swd off gb ab tel st) =
     fold (\<lambda>v. AList.update (view_key v) (corner_data_of v))
       (accepted_views (t0_s (InitSpline_state it n ds T swd off gb ab tel st))
          (tend_s (InitSpline_state it n ds T swd off gb ab tel st)) ds) (calib_corners st)"
  "calib_init_poses (InitSpline_state it n ds T swd off gb ab tel st) =
     fold (\<lambda>v. AList.update (view_key v) (pose_data_of v))
       (accepted_views (t0_s (InitSpline_state it n ds T swd off gb ab tel st))
          (tend_s (InitSpline_state it n ds T swd off gb ab tel st)) ds) (calib_init_poses st)"
  "spline_init_poses (InitSpline_state it n ds T swd off gb ab tel st) =
     fold (\<lambda>v. AList.update (view_key v) (spline_pose_data_of T v))
       (accepted_views (t0_s (InitSpline_state it n ds T swd off gb ab tel st))
          (tend_s (InitSpline_state it n ds T swd off gb ab tel st)) ds) (spline_init_poses st)"
  "accl_measurements (InitSpline_state it n ds T swd off gb ab tel st) =
     fold (store_sample off ab)
       (accepted_samples off (t0_s (InitSpline_state it n ds T swd off gb ab tel st))
          (tend_s (InitSpline_state it n ds T swd off gb ab tel st))
          (measurement (accelerometer tel)) (timestamp_ms (accelerometer tel)))
       (accl_measurements st)"
  "gyro_measurements (InitSpline_state it n ds T swd off gb ab tel st) =
     fold (store_sample off gb)
       (accepted_samples off (t0_s (InitSpline_state it n ds T swd off gb ab tel st))
          (tend_s (InitSpline_state it n ds T swd off gb ab tel st))
          (measurement (gyroscope tel)) (timestamp_ms (gyroscope tel)))
       (gyro_measurements st)"
  by (simp_all add: InitSpline_state_def Let_def)

lemma InitSpline_state_knots:
  "nr_knots_so3 (InitSpline_state it n ds T swd off gb ab tel st) =
     int64_div (end_t_ns (InitSpline_state it n ds T swd off gb ab tel st) -
                start_t_ns (InitSpline_state it n ds T swd off gb ab tel st))
       (dt_so3_ns (InitSpline_state it n ds T swd off gb ab tel st)) + n"
  "nr_knots_r3 (InitSpline_state it n ds T swd off gb ab tel st) =
     int64_div (end_t_ns (InitSpline_state it n ds T swd off gb ab tel st) -
                start_t_ns (InitSpline_state it n ds T swd off gb ab tel st))
       (dt_r3_ns (InitSpline_state it n ds T swd off gb ab tel st)) + n"
  by (simp_all add: InitSpline_state_def Let_def start_t_ns_def end_t_ns_def dt_so3_ns_def
      dt_r3_ns_def)

lemma InitSpline_state_trajectory:
  "trajectory (InitSpline_state it n ds T swd off gb ab tel st) =
     trajectory st @
     [SetInitialRSLineDelay (inital_cam_line_delay_s (InitSpline_state it n ds T swd off gb ab tel st)),
      init_times (dt_so3_ns (InitSpline_state it n ds T swd off gb ab tel st))
        (dt_r3_ns (InitSpline_state it n ds T swd off gb ab tel st))
        (start_t_ns (InitSpline_state it n ds T swd off gb ab tel st)),
      setCalib ds, setT_i_c T,
      initAll (spline_init_poses (InitSpline_state it n ds T swd off gb ab tel st))
        (nr_knots_so3 (InitSpline_state it n ds T swd off gb ab tel st))
        (nr_knots_r3 (InitSpline_state it n ds T swd off gb ab tel st))] @
     corner_calls ds (start_t_ns (InitSpline_state it n ds T swd off gb ab tel st))
       (end_t_ns (InitSpline_state it n ds T swd off gb ab tel st))
       (it (calib_corners (InitSpline_state it n ds T swd off gb ab tel st))) @
     map (accel_call swd (reestimate_biases st) off ab)
       (accepted_samples off (t0_s (InitSpline_state it n ds T swd off gb ab tel st))
          (tend_s (InitSpline_state it n ds T swd off gb ab tel st))
          (measurement (accelerometer tel)) (timestamp_ms (accelerometer tel))) @
     map (gyro_call swd (reestimate_biases st) off gb)
       (accepted_samples off (t0_s (InitSpline_state it n ds T swd off gb ab tel st))
          (tend_s (InitSpline_state it n ds T swd off gb ab tel st))
          (measurement (gyroscope tel)) (timestamp_ms (gyroscope tel)))"
  by (simp add: InitSpline_state_def Let_def start_t_ns_def end_t_ns_def dt_so3_ns_def
      dt_r3_ns_def)

section \<open>The window bounds, the line delay and the knot counts\<close>

lemma filter_delay_corner_calls [simp]:
  "filter is_line_delay_call (corner_calls ds a b kvs) = []"
  by (auto simp: corner_calls_def filter_empty_conv split: option.splits)

lemma filter_delay_accel [simp]:
  "filter is_line_delay_call (map (accel_call swd r off b) xs) = []"
  by (auto simp: accel_call_def filter_empty_conv)

lemma filter_delay_gyro [simp]:
  "filter is_line_delay_call (map (gyro_call swd r off b) xs) = []"
  by (auto simp: gyro_call_def filter_empty_conv)

lemma int64_div_floor:
  "0 \<le> a \<Longrightarrow> 0 < b \<Longrightarrow> int64_div a b = \<lfloor>real_of_int a / real_of_int b\<rfloor>"
  by (simp add: int64_div_nonneg floor_divide_of_int_eq)



text \<open>
  Claim C8. \<^verbatim>\<open>InitSpline\<close> completes on the inputs on which no step is undefined, with
  the calibration of the line delay disabled as well as enabled (then the reconstruction
  has a view, and neither the frame rate nor the image height of its first view is 0).
  Whenever it completes, the initial line delay is 0 when the calibration of the line delay
  is disabled, whatever the frame rate and the image height, and
  (1 / frame rate) * (1 / image height of the first view) when it is enabled; that value is
  the one handed to the trajectory, in exactly one call of \<^verbatim>\<open>SetInitialRSLineDelay\<close>.
\<close>

theorem InitSpline_line_delay:
  "(InitSpline_defined iteration calib_dataset swd time_offset telemetry_data st \<longrightarrow>
      (\<exists>s. InitSpline iteration SPLINE_N calib_dataset T_i_c swd time_offset gyro_bias accl_bias
             telemetry_data st = Inr s)) \<and>
   (\<forall>s. InitSpline iteration SPLINE_N calib_dataset T_i_c swd time_offset gyro_bias accl_bias
          telemetry_data st = Inr s \<longrightarrow>
      inital_cam_line_delay_s s =
        (if calibrate_cam_line_delay st
         then (1 / cam_fps swd) *
              (1 / real_of_int (ImageHeight (GetCamera (hd calib_dataset))))
         else 0) \<and>
      (calibrate_cam_line_delay st \<longrightarrow>
         calib_dataset \<noteq> [] \<and> cam_fps swd \<noteq> 0 \<and>
         ImageHeight (GetCamera (hd calib_dataset)) \<noteq> 0) \<and>
      filter is_line_delay_call (trajectory s) =
        filter is_line_delay_call (trajectory st) @
        [SetInitialRSLineDelay (inital_cam_line_delay_s s)])"
proof (intro conjI allI impI)
  assume "InitSpline_defined iteration calib_dataset swd time_offset telemetry_data st"
  then show "\<exists>s. InitSpline iteration SPLINE_N calib_dataset T_i_c swd time_offset gyro_bias
      accl_bias telemetry_data st = Inr s"
    by (simp add: InitSpline_Inr_iff)
next
  fix s
  assume run: "InitSpline iteration SPLINE_N calib_dataset T_i_c swd time_offset gyro_bias
      accl_bias telemetry_data st = Inr s"
  then have s: "s = InitSpline_state iteration SPLINE_N calib_dataset T_i_c swd time_offset
      gyro_bias accl_bias telemetry_data st"
    by (simp add: InitSpline_Inr_iff)
  show "inital_cam_line_delay_s s =
        (if calibrate_cam_line_delay st
         then (1 / cam_fps swd) *
              (1 / real_of_int (ImageHeight (GetCamera (hd calib_dataset))))
         else 0)"
    by (simp add: s InitSpline_state_fields)
  show "filter is_line_delay_call (trajectory s) =
        filter is_line_delay_call (trajectory st) @
        [SetInitialRSLineDelay (inital_cam_line_delay_s s)]"
    unfolding s by (subst InitSpline_state_trajectory) simp
next
  fix s
  assume run: "InitSpline iteration SPLINE_N calib_dataset T_i_c swd time_offset gyro_bias
      accl_bias telemetry_data st = Inr s"
    and on: "calibrate_cam_line_delay st"
  from run have d: "InitSpline_defined iteration calib_dataset swd time_offset telemetry_data st"
    by (simp add: InitSpline_Inr_iff)
  from d on show "calib_dataset \<noteq> []" "cam_fps swd \<noteq> 0"
    "ImageHeight (GetCamera (hd calib_dataset)) \<noteq> 0"
    by (simp_all add: InitSpline_defined_def Let_def)
qed

text \<open>
  Two runs on the two frames, at 30 frames per second and an image height of 1000. With
  the calibration of the line delay enabled, the run completes and the delay is 1 / 30000;
  with it disabled, the delay is 0.
\<close>

theorem InitSpline_line_delay_example:
  "(\<exists>s. InitSpline key_order 4 two_frames SE3_identity example_weights 0 (0, 0, 0) (0, 0, 0)
          example_telemetry (new_calibrator\<lparr>calibrate_cam_line_delay := True\<rparr>) = Inr s \<and>
        inital_cam_line_delay_s s = 1 / 30000 \<and>
        filter is_line_delay_call (trajectory s) = [SetInitialRSLineDelay (1 / 30000)]) \<and>
   InitSpline key_order 4 two_frames SE3_identity example_weights 0 (0, 0, 0) (0, 0, 0)
     example_telemetry new_calibrator = Inr example_final \<and>
   inital_cam_line_delay_s example_final = 0 \<and>
   filter is_line_delay_call (trajectory example_final) = [SetInitialRSLineDelay 0]"
proof -
  define enabled where "enabled = new_calibrator\<lparr>calibrate_cam_line_delay := True\<rparr>"
  have d: "InitSpline_defined key_order two_frames example_weights 0 example_telemetry enabled"
    by (simp add: InitSpline_defined_def enabled_def example_defs accepted_views_def
        accepted_samples_def in_window_def corrected_time_def view_key_def corner_data_of_def
        to_int64_def ViewAt_def Let_def)
  note on = InitSpline_line_delay [where iteration = key_order and calib_dataset = two_frames
      and swd = example_weights and time_offset = 0 and telemetry_data = example_telemetry
      and st = enabled and SPLINE_N = 4 and T_i_c = SE3_identity and gyro_bias = "(0, 0, 0)"
      and accl_bias = "(0, 0, 0)"]
  from on d obtain s where run: "InitSpline key_order 4 two_frames SE3_identity example_weights 0
      (0, 0, 0) (0, 0, 0) example_telemetry enabled = Inr s"
    by blast
  from on run have "inital_cam_line_delay_s s = 1 / 30000 \<and>
      filter is_line_delay_call (trajectory s) = [SetInitialRSLineDelay (1 / 30000)]"
    by (simp add: enabled_def example_defs)
  with run have a: "\<exists>s. InitSpline key_order 4 two_frames SE3_identity example_weights 0
      (0, 0, 0) (0, 0, 0) example_telemetry (new_calibrator\<lparr>calibrate_cam_line_delay := True\<rparr>) =
        Inr s \<and>
      inital_cam_line_delay_s s = 1 / 30000 \<and>
      filter is_line_delay_call (trajectory s) = [SetInitialRSLineDelay (1 / 30000)]"
    unfolding enabled_def by blast
  note off = InitSpline_line_delay [where iteration = key_order and calib_dataset = two_frames
      and swd = example_weights and time_offset = 0 and telemetry_data = example_telemetry
      and st = new_calibrator and SPLINE_N = 4 and T_i_c = SE3_identity
      and gyro_bias = "(0, 0, 0)" and accl_bias = "(0, 0, 0)"]
  from off example_run have b: "inital_cam_line_delay_s example_final = 0 \<and>
      filter is_line_delay_call (trajectory example_final) = [SetInitialRSLineDelay 0]"
    by (simp add: new_calibrator_def)
  show ?thesis using a b example_run by blast
qed

text \<open>
  Claim C7 as stated does not hold: with a window of 1.5 s and a spacing of 1 s the rotation
  spline gets 1 + 4 = 5 knots, where the ceiling of 1.5 plus the order 4 is 6.
\<close>

theorem knot_count_not_ceiling:
  "InitSpline key_order 4 two_frames SE3_identity example_weights 0 (0, 0, 0) (0, 0, 0) example_telemetry
     new_calibrator = Inr example_final \<and>
   nr_knots_so3 example_final = 5 \<and>
   \<lceil>(tend_s example_final - t0_s example_final) / dt_so3 (spline_weight_data example_final)\<rceil>
     + 4 = 6"
  using example_run by (simp add: example_final_def example_weights_def new_calibrator_def)

text \<open>
  Claim C7, amended. Whenever \<^verbatim>\<open>InitSpline\<close> completes, the knot count of each sub-spline is
  the quotient of the integer division of the window length by the spacing, both in whole
  nanoseconds, plus the spline order: for a positive spacing that is the floor, not the
  ceiling, of the ratio of the two nanosecond values, plus the order.
\<close>

theorem InitSpline_knot_counts:
  assumes "InitSpline iteration SPLINE_N calib_dataset T_i_c swd time_offset gyro_bias accl_bias
             telemetry_data st = Inr s"
  shows "dt_so3_ns s \<noteq> 0 \<and> dt_r3_ns s \<noteq> 0 \<and> start_t_ns s \<le> end_t_ns s \<and>
         nr_knots_so3 s = int64_div (end_t_ns s - start_t_ns s) (dt_so3_ns s) + SPLINE_N \<and>
         nr_knots_r3 s = int64_div (end_t_ns s - start_t_ns s) (dt_r3_ns s) + SPLINE_N \<and>
         (0 < dt_so3_ns s \<longrightarrow>
            nr_knots_so3 s =
              \<lfloor>real_of_int (end_t_ns s - start_t_ns s) / real_of_int (dt_so3_ns s)\<rfloor> + SPLINE_N) \<and>
         (0 < dt_r3_ns s \<longrightarrow>
            nr_knots_r3 s =
              \<lfloor>real_of_int (end_t_ns s - start_t_ns s) / real_of_int (dt_r3_ns s)\<rfloor> + SPLINE_N)"
proof -
  from assms have d: "InitSpline_defined iteration calib_dataset swd time_offset telemetry_data st"
    and s: "s = InitSpline_state iteration SPLINE_N calib_dataset T_i_c swd time_offset gyro_bias accl_bias
         telemetry_data st"
    by (simp_all add: InitSpline_Inr_iff)
  from d have ne: "sort (cam_timestamps st @ map GetTimestamp calib_dataset) \<noteq> []"
    and z1: "dt_so3_ns s \<noteq> 0" and z2: "dt_r3_ns s \<noteq> 0"
    by (simp_all add: InitSpline_defined_def Let_def dt_so3_ns_def dt_r3_ns_def s
        InitSpline_state_fields)
  have "t0_s s \<le> tend_s s"
    unfolding s InitSpline_state_fields by (rule Min_le_Max_list [OF ne])
  then have le: "start_t_ns s \<le> end_t_ns s"
    unfolding start_t_ns_def end_t_ns_def by (intro to_int64_mono) simp
  have k1: "nr_knots_so3 s = int64_div (end_t_ns s - start_t_ns s) (dt_so3_ns s) + SPLINE_N"
    and k2: "nr_knots_r3 s = int64_div (end_t_ns s - start_t_ns s) (dt_r3_ns s) + SPLINE_N"
    unfolding s by (rule InitSpline_state_knots)+
  have f: "0 < b \<Longrightarrow> int64_div (end_t_ns s - start_t_ns s) b =
      \<lfloor>real_of_int (end_t_ns s - start_t_ns s) / real_of_int b\<rfloor>" for b
    using le by (intro int64_div_floor) simp_all
  show ?thesis using z1 z2 le k1 k2 f by simp
qed

text \<open>
  The run on the two frames: 1 + 4 knots at a spacing of 1 s and 3 + 4 at a spacing of 0.5 s.
\<close>

theorem InitSpline_knot_counts_example:
  "InitSpline key_order 4 two_frames SE3_identity example_weights 0 (0, 0, 0) (0, 0, 0) example_telemetry
     new_calibrator = Inr example_final \<and>
   nr_knots_so3 example_final = 1500000000 div 1000000000 + 4 \<and>
   nr_knots_r3 example_final = 1500000000 div 500000000 + 4"
  using InitSpline_knot_counts [OF example_run] example_run
  by (simp add: example_final_def new_calibrator_def)

section \<open>The frame at the end of the window\<close>

lemma map_of_fold_update_None:
  "map_of (fold (\<lambda>v. AList.update (k v) (f v)) vs al) key = None \<longleftrightarrow>
     map_of al key = None \<and> key \<notin> k ` set vs"
  by (induction vs arbitrary: al) (auto simp: update_conv')

lemma corner_calls_frames:
  "c \<in> set (corner_calls ds a b kvs) \<Longrightarrow> \<exists>f. corner_call_frame c = Some f \<and> a \<le> f \<and> f < b"
  by (auto simp: corner_calls_def split: option.splits)

lemma corner_call_frame_accel [simp]: "corner_call_frame (accel_call swd r off b x) = None"
  by (simp add: accel_call_def)

lemma corner_call_frame_gyro [simp]: "corner_call_frame (gyro_call swd r off b x) = None"
  by (simp add: gyro_call_def)

lemma in_window_bounds:
  "in_window t0 tend t \<longleftrightarrow> t0 \<le> t \<and> t < tend"
  by (simp add: in_window_def)

lemma not_accepted_at_tend:
  "GetTimestamp v = tend \<Longrightarrow> v \<notin> set (accepted_views t0 tend ds)"
  by (simp add: accepted_views_def in_window_def)

lemma accepted_views_before_tend:
  "u \<in> set (accepted_views t0 tend ds) \<Longrightarrow> u \<in> set ds \<and> t0 \<le> GetTimestamp u \<and> GetTimestamp u < tend"
  by (simp add: accepted_views_def in_window_def)

lemma InitSpline_tend_s_Max:
  assumes "InitSpline iteration SPLINE_N calib_dataset T_i_c swd time_offset gyro_bias accl_bias
             telemetry_data st = Inr s"
  shows "tend_s s = Max (set (cam_timestamps s))"
  using assms by (simp add: InitSpline_Inr_iff InitSpline_state_fields)

text \<open>
  Claim C10. Whenever \<^verbatim>\<open>InitSpline\<close> completes, a view of the reconstruction whose timestamp
  is the largest camera timestamp is not among the views that the loop over the views
  accepts: the three maps are written for the accepted views only, and no call that adds
  corners to the trajectory carries the frame id of that view. When the maps held no entry
  under the key of that view before, and no other view of the reconstruction has the same
  key at another time, they hold none afterwards.
\<close>

theorem last_frame_never_ingested:
  assumes "InitSpline iteration SPLINE_N calib_dataset T_i_c swd time_offset gyro_bias accl_bias
             telemetry_data st = Inr s"
    and "v \<in> set calib_dataset"
    and "GetTimestamp v = Max (set (cam_timestamps s))"
  shows "v \<notin> set (accepted_views (t0_s s) (tend_s s) calib_dataset) \<and>
         calib_corners s =
           fold (\<lambda>u. AList.update (view_key u) (corner_data_of u))
             (accepted_views (t0_s s) (tend_s s) calib_dataset) (calib_corners st) \<and>
         calib_init_poses s =
           fold (\<lambda>u. AList.update (view_key u) (pose_data_of u))
             (accepted_views (t0_s s) (tend_s s) calib_dataset) (calib_init_poses st) \<and>
         spline_init_poses s =
           fold (\<lambda>u. AList.update (view_key u) (spline_pose_data_of T_i_c u))
             (accepted_views (t0_s s) (tend_s s) calib_dataset) (spline_init_poses st) \<and>
         (\<exists>calls. trajectory s = trajectory st @ calls \<and>
            (\<forall>c \<in> set calls. corner_call_frame c \<noteq> Some (frame_id (view_key v)))) \<and>
         (map_of (calib_corners st) (view_key v) = None \<and>
          map_of (calib_init_poses st) (view_key v) = None \<and>
          map_of (spline_init_poses st) (view_key v) = None \<and>
          (\<forall>u \<in> set calib_dataset. view_key u = view_key v \<longrightarrow>
                GetTimestamp u = GetTimestamp v) \<longrightarrow>
          map_of (calib_corners s) (view_key v) = None \<and>
          map_of (calib_init_poses s) (view_key v) = None \<and>
          map_of (spline_init_poses s) (view_key v) = None)"
proof -
  from assms(1) have s: "s = InitSpline_state iteration SPLINE_N calib_dataset T_i_c swd time_offset
      gyro_bias accl_bias telemetry_data st"
    by (simp add: InitSpline_Inr_iff)
  from InitSpline_tend_s_Max [OF assms(1)] assms(3)
  have tend: "GetTimestamp v = tend_s s" by simp
  have a: "v \<notin> set (accepted_views (t0_s s) (tend_s s) calib_dataset)"
    using tend by (rule not_accepted_at_tend)
  have m1: "calib_corners s =
           fold (\<lambda>u. AList.update (view_key u) (corner_data_of u))
             (accepted_views (t0_s s) (tend_s s) calib_dataset) (calib_corners st)"
    and m2: "calib_init_poses s =
           fold (\<lambda>u. AList.update (view_key u) (pose_data_of u))
             (accepted_views (t0_s s) (tend_s s) calib_dataset) (calib_init_poses st)"
    and m3: "spline_init_poses s =
           fold (\<lambda>u. AList.update (view_key u) (spline_pose_data_of T_i_c u))
             (accepted_views (t0_s s) (tend_s s) calib_dataset) (spline_init_poses st)"
    unfolding s by (rule InitSpline_state_maps)+
  have key: "frame_id (view_key v) = end_t_ns s"
    by (simp add: view_key_def end_t_ns_def tend)
  define calls where "calls =
     [SetInitialRSLineDelay (inital_cam_line_delay_s s),
      init_times (dt_so3_ns s) (dt_r3_ns s) (start_t_ns s), setCalib calib_dataset,
      setT_i_c T_i_c, initAll (spline_init_poses s) (nr_knots_so3 s) (nr_knots_r3 s)] @
     corner_calls calib_dataset (start_t_ns s) (end_t_ns s) (iteration (calib_corners s)) @
     map (accel_call swd (reestimate_biases st) time_offset accl_bias)
       (accepted_samples time_offset (t0_s s) (tend_s s)
          (measurement (accelerometer telemetry_data))
          (timestamp_ms (accelerometer telemetry_data))) @
     map (gyro_call swd (reestimate_biases st) time_offset gyro_bias)
       (accepted_samples time_offset (t0_s s) (tend_s s)
          (measurement (gyroscope telemetry_data)) (timestamp_ms (gyroscope telemetry_data)))"
  have tr: "trajectory s = trajectory st @ calls"
    unfolding s calls_def by (rule InitSpline_state_trajectory)
  have none: "c \<in> set calls \<Longrightarrow> corner_call_frame c \<noteq> Some (frame_id (view_key v))" for c
    unfolding calls_def key using corner_calls_frames [of c calib_dataset "start_t_ns s" "end_t_ns s"
        "iteration (calib_corners s)"]
    by auto
  have b: "\<exists>calls. trajectory s = trajectory st @ calls \<and>
            (\<forall>c \<in> set calls. corner_call_frame c \<noteq> Some (frame_id (view_key v)))"
    using tr none by blast
  have c: "map_of (calib_corners s) (view_key v) = None \<and>
          map_of (calib_init_poses s) (view_key v) = None \<and>
          map_of (spline_init_poses s) (view_key v) = None"
    if e: "map_of (calib_corners st) (view_key v) = None"
      "map_of (calib_init_poses st) (view_key v) = None"
      "map_of (spline_init_poses st) (view_key v) = None"
      and d: "\<forall>u \<in> set calib_dataset. view_key u = view_key v \<longrightarrow>
                GetTimestamp u = GetTimestamp v"
  proof -
    have "view_key v \<notin> view_key ` set (accepted_views (t0_s s) (tend_s s) calib_dataset)"
    proof
      assume "view_key v \<in> view_key ` set (accepted_views (t0_s s) (tend_s s) calib_dataset)"
      then obtain u where u: "u \<in> set (accepted_views (t0_s s) (tend_s s) calib_dataset)"
        and k: "view_key u = view_key v" by auto
      from accepted_views_before_tend [OF u] have "u \<in> set calib_dataset"
        "GetTimestamp u < tend_s s" by simp_all
      with d k tend show False by auto
    qed
    then show ?thesis
      unfolding m1 m2 m3 by (simp add: map_of_fold_update_None e)
  qed
  show ?thesis using a m1 m2 m3 b c by blast
qed

text \<open>
  The run on the two frames: nothing is stored for the frame at 1.5 s.
\<close>

theorem last_frame_never_ingested_example:
  "InitSpline key_order 4 two_frames SE3_identity example_weights 0 (0, 0, 0) (0, 0, 0) example_telemetry
     new_calibrator = Inr example_final \<and>
   example_view 1 1.5 \<in> set two_frames \<and>
   GetTimestamp (example_view 1 1.5) = Max (set (cam_timestamps example_final)) \<and>
   map_of (calib_corners example_final) (view_key (example_view 1 1.5)) = None \<and>
   map_of (calib_init_poses example_final) (view_key (example_view 1 1.5)) = None \<and>
   map_of (spline_init_poses example_final) (view_key (example_view 1 1.5)) = None"
proof -
  have v: "example_view 1 1.5 \<in> set two_frames"
    by (simp add: two_frames_def)
  have m: "GetTimestamp (example_view 1 1.5) = Max (set (cam_timestamps example_final))"
    by (simp add: example_view_def example_final_def)
  have e: "map_of (calib_corners new_calibrator) (view_key (example_view 1 1.5)) = None \<and>
          map_of (calib_init_poses new_calibrator) (view_key (example_view 1 1.5)) = None \<and>
          map_of (spline_init_poses new_calibrator) (view_key (example_view 1 1.5)) = None \<and>
          (\<forall>u \<in> set two_frames. view_key u = view_key (example_view 1 1.5) \<longrightarrow>
                GetTimestamp u = GetTimestamp (example_view 1 1.5))"
    by (auto simp: new_calibrator_def two_frames_def example_view_def view_key_def to_int64_def)
  from last_frame_never_ingested [OF example_run v m] e example_run v m
  show ?thesis by blast
qed

section \<open>The half-open window\<close>





lemma filter_corner_calls [simp]:
  "filter is_corners_call (corner_calls ds a b kvs) = corner_calls ds a b kvs"
  by (auto simp: corner_calls_def split: option.splits)

lemma filter_corner_accel [simp]:
  "filter is_corners_call (map (accel_call swd r off b) xs) = []"
  by (simp add: filter_empty_conv accel_call_def)

lemma filter_corner_gyro [simp]:
  "filter is_corners_call (map (gyro_call swd r off b) xs) = []"
  by (simp add: filter_empty_conv gyro_call_def)




section \<open>Empty reconstructions, and ClearSpline\<close>

text \<open>
  Claim C1. On a calibrator without camera timestamps and an empty reconstruction, the claim
  asks for a refusal before any change of the state. The code has no such test: it stores
  the weighting data and the transform, and, when the line delay is not calibrated, sets the
  line delay on the trajectory; then it reads the first element of an empty vector.
\<close>

theorem InitSpline_empty_reads_out_of_range:
  assumes "cam_timestamps st = []"
  shows "InitSpline iteration SPLINE_N [] T_i_c swd time_offset gyro_bias accl_bias telemetry_data st =
     Inl (OutOfRange,
          if calibrate_cam_line_delay st
          then st\<lparr>spline_weight_data := swd, T_i_c_init := T_i_c\<rparr>
          else st\<lparr>spline_weight_data := swd, T_i_c_init := T_i_c,
                  inital_cam_line_delay_s := 0,
                  trajectory := trajectory st @ [SetInitialRSLineDelay 0]\<rparr>)"
proof -
  obtain f1 f2 f3 f4 f5 f6 f7 f8 f9 f10 f11 f12 f13 f14 f15 f16 f17 f18 where
    st: "st = \<lparr>spline_weight_data = f1, T_i_c_init = f2, cam_timestamps = f3,
      calibrate_cam_line_delay = f4, inital_cam_line_delay_s = f5, trajectory = f6,
      t0_s = f7, tend_s = f8, calib_corners = f9, calib_init_poses = f10,
      spline_init_poses = f11, nr_knots_so3 = f12, nr_knots_r3 = f13,
      reestimate_biases = f14, accl_measurements = f15, gyro_measurements = f16,
      gravity_init = f17, gravity_initialized = f18\<rparr>"
    by (cases st)
  from assms show ?thesis
    by (simp add: st InitSpline_def collect_timestamps_def init_line_delay_def
        set_line_delay_def call_def init_window_def)
qed

text \<open>
  A new calibrator and an empty reconstruction.
\<close>

theorem InitSpline_empty_reads_out_of_range_example:
  "cam_timestamps new_calibrator = [] \<and>
   InitSpline key_order 4 [] SE3_identity example_weights 0 (0, 0, 0) (0, 0, 0) example_telemetry
     new_calibrator =
   Inl (OutOfRange,
        new_calibrator\<lparr>spline_weight_data := example_weights,
                       trajectory := [SetInitialRSLineDelay 0]\<rparr>)"
proof -
  have e: "cam_timestamps new_calibrator = []"
    by (simp add: new_calibrator_def)
  from InitSpline_empty_reads_out_of_range [OF e] e show ?thesis
    by (simp add: new_calibrator_def)
qed

text \<open>
  Claim C9, amended. \<^verbatim>\<open>InitSpline\<close> after \<^verbatim>\<open>ClearSpline\<close> on a used calibrator returns the
  state that \<^verbatim>\<open>InitSpline\<close> returns, on the same inputs, from a calibrator with empty
  timestamps, maps, samples and trajectory and with the same two flags, except for the
  gravity and its status, which are those of the used calibrator.
\<close>

theorem ClearSpline_InitSpline_equals_new:
  assumes "cam_timestamps st0 = []" and "trajectory st0 = []"
    and "calib_corners st0 = []" and "calib_init_poses st0 = []" and "spline_init_poses st0 = []"
    and "accl_measurements st0 = []" and "gyro_measurements st0 = []"
    and "calibrate_cam_line_delay st0 = calibrate_cam_line_delay st"
    and "reestimate_biases st0 = reestimate_biases st"
    and "InitSpline iteration SPLINE_N calib_dataset T_i_c swd time_offset gyro_bias accl_bias
           telemetry_data st0 = Inr s0"
  shows "InitSpline iteration SPLINE_N calib_dataset T_i_c swd time_offset gyro_bias accl_bias
           telemetry_data (ClearSpline st) =
         Inr (s0\<lparr>gravity_init := gravity_init st,
                 gravity_initialized := gravity_initialized st\<rparr>)"
proof -
  obtain f1 f2 f3 f4 f5 f6 f7 f8 f9 f10 f11 f12 f13 f14 f15 f16 f17 f18 where
    st: "st = \<lparr>spline_weight_data = f1, T_i_c_init = f2, cam_timestamps = f3,
      calibrate_cam_line_delay = f4, inital_cam_line_delay_s = f5, trajectory = f6,
      t0_s = f7, tend_s = f8, calib_corners = f9, calib_init_poses = f10,
      spline_init_poses = f11, nr_knots_so3 = f12, nr_knots_r3 = f13,
      reestimate_biases = f14, accl_measurements = f15, gyro_measurements = f16,
      gravity_init = f17, gravity_initialized = f18\<rparr>"
    by (cases st)
  obtain g1 g2 g3 g4 g5 g6 g7 g8 g9 g10 g11 g12 g13 g14 g15 g16 g17 g18 where
    st0: "st0 = \<lparr>spline_weight_data = g1, T_i_c_init = g2, cam_timestamps = g3,
      calibrate_cam_line_delay = g4, inital_cam_line_delay_s = g5, trajectory = g6,
      t0_s = g7, tend_s = g8, calib_corners = g9, calib_init_poses = g10,
      spline_init_poses = g11, nr_knots_so3 = g12, nr_knots_r3 = g13,
      reestimate_biases = g14, accl_measurements = g15, gyro_measurements = g16,
      gravity_init = g17, gravity_initialized = g18\<rparr>"
    by (cases st0)
  from assms(1-9) have eq: "g3 = []" "g6 = []" "g9 = []" "g10 = []" "g11 = []" "g15 = []"
    "g16 = []" "g4 = f4" "g14 = f14"
    by (simp_all add: st st0)
  from assms(10) have d0: "InitSpline_defined iteration calib_dataset swd time_offset telemetry_data st0"
    and s0: "s0 = InitSpline_state iteration SPLINE_N calib_dataset T_i_c swd time_offset gyro_bias
        accl_bias telemetry_data st0"
    by (simp_all add: InitSpline_Inr_iff)
  have d: "InitSpline_defined iteration calib_dataset swd time_offset telemetry_data (ClearSpline st)"
    using d0 by (simp add: InitSpline_defined_def ClearSpline_def st st0 eq)
  have s: "InitSpline_state iteration SPLINE_N calib_dataset T_i_c swd time_offset gyro_bias
        accl_bias telemetry_data (ClearSpline st) =
      s0\<lparr>gravity_init := gravity_init st, gravity_initialized := gravity_initialized st\<rparr>"
    by (simp add: s0 InitSpline_state_def ClearSpline_def Let_def st st0 eq)
  show ?thesis using d s by (simp add: InitSpline_Inr_iff)
qed

text \<open>
  The used calibrator of the example against a new one.
\<close>

theorem ClearSpline_InitSpline_equals_new_example:
  "InitSpline key_order 4 two_frames SE3_identity example_weights 0 (0, 0, 0) (0, 0, 0) example_telemetry
     new_calibrator = Inr example_final \<and>
   InitSpline key_order 4 two_frames SE3_identity example_weights 0 (0, 0, 0) (0, 0, 0) example_telemetry
     (ClearSpline used_calibrator) =
   Inr (example_final\<lparr>gravity_init := (0, 0, 9.81), gravity_initialized := True\<rparr>)"
proof -
  have e: "cam_timestamps new_calibrator = []" "trajectory new_calibrator = []"
    "calib_corners new_calibrator = []" "calib_init_poses new_calibrator = []"
    "spline_init_poses new_calibrator = []" "accl_measurements new_calibrator = []"
    "gyro_measurements new_calibrator = []"
    "calibrate_cam_line_delay new_calibrator = calibrate_cam_line_delay used_calibrator"
    "reestimate_biases new_calibrator = reestimate_biases used_calibrator"
    by (simp_all add: new_calibrator_def used_calibrator_def example_final_def)
  from ClearSpline_InitSpline_equals_new [OF e example_run] example_run show ?thesis
    by (simp add: used_calibrator_def)
qed

text \<open>
  Claim C9 as stated does not hold: after \<^verbatim>\<open>ClearSpline\<close> and \<^verbatim>\<open>InitSpline\<close> the used
  calibrator has its gravity initialised, the new one has not.
\<close>

theorem ClearSpline_keeps_gravity_status:
  "InitializeGravity example_telemetry (0, 0, 0) example_final = Inr used_calibrator \<and>
   InitSpline key_order 4 two_frames SE3_identity example_weights 0 (0, 0, 0) (0, 0, 0) example_telemetry
     (ClearSpline used_calibrator) =
   Inr (example_final\<lparr>gravity_init := (0, 0, 9.81), gravity_initialized := True\<rparr>) \<and>
   InitSpline key_order 4 two_frames SE3_identity example_weights 0 (0, 0, 0) (0, 0, 0) example_telemetry
     new_calibrator = Inr example_final \<and>
   gravity_initialized (example_final\<lparr>gravity_init := (0, 0, 9.81), gravity_initialized := True\<rparr>)
     \<noteq> gravity_initialized example_final"
proof -
  have a: "InitSpline key_order 4 two_frames SE3_identity example_weights 0 (0, 0, 0) (0, 0, 0)
     example_telemetry (ClearSpline used_calibrator) =
   Inr (example_final\<lparr>gravity_init := (0, 0, 9.81), gravity_initialized := True\<rparr>)"
    by (simp add: InitSpline_eval example_defs example_final_def used_calibrator_def
        ClearSpline_def)
  have b: "gravity_initialized
      (example_final\<lparr>gravity_init := (0, 0, 9.81), gravity_initialized := True\<rparr>)
     \<noteq> gravity_initialized example_final"
    by (simp add: example_final_def new_calibrator_def)
  show ?thesis using a b InitializeGravity_example example_run by simp
qed

section \<open>The loops of InitializeGravity\<close>

lemma scan_initialized:
  "gravity_initialized st \<Longrightarrow> scan_accelerometer R cam_t b ms tss st = Inr st"
  by (cases ms) simp_all

lemma scan_first_match:
  assumes "\<not> gravity_initialized st" and "length ms \<le> length tss"
  shows "scan_accelerometer R cam_t b ms tss st =
     Inr (case find (\<lambda>x. tolerance_test cam_t (snd x)) (zip ms tss) of
            None \<Rightarrow> st
          | Some x \<Rightarrow> st\<lparr>gravity_init := mat_vec R (vec_add (fst x) b),
                          gravity_initialized := True\<rparr>)"
  using assms
proof (induction ms arbitrary: tss)
  case Nil
  then show ?case by simp
next
  case (Cons m ms)
  then obtain ts tss' where tss: "tss = ts # tss'" and len: "length ms \<le> length tss'"
    by (cases tss) auto
  show ?case
  proof (cases "tolerance_test cam_t ts")
    case True
    then show ?thesis using Cons.prems(1)
      by (simp add: tss tolerance_test_def within_tolerance_def Let_def scan_initialized)
  next
    case False
    then show ?thesis using Cons.prems(1) Cons.IH [OF Cons.prems(1) len]
      by (simp add: tss tolerance_test_def within_tolerance_def Let_def)
  qed
qed

lemma gravity_loop_initialized:
  "gravity_initialized st \<Longrightarrow> gravity_loop tel b cams st = Inr st"
  by (induction cams) (simp_all add: Let_def split: option.splits)

lemma gravity_loop_no_match:
  assumes "\<not> gravity_initialized st"
    and "length (measurement (accelerometer tel)) \<le> length (timestamp_ms (accelerometer tel))"
    and "\<forall>c \<in> set cams. registered_pose st c = None \<or>
           find (\<lambda>x. tolerance_test c (snd x))
             (zip (measurement (accelerometer tel)) (timestamp_ms (accelerometer tel))) = None"
  shows "gravity_loop tel b cams st = Inr st"
  using assms(3)
proof (induction cams)
  case Nil
  show ?case by simp
next
  case (Cons c cams)
  then have IH: "gravity_loop tel b cams st = Inr st" by simp
  show ?case
  proof (cases "registered_pose st c")
    case None
    then show ?thesis using IH by (simp add: registered_pose_def)
  next
    case (Some pose)
    with Cons.prems have "find (\<lambda>x. tolerance_test c (snd x))
             (zip (measurement (accelerometer tel)) (timestamp_ms (accelerometer tel))) = None"
      by simp
    then show ?thesis using Some IH assms(1)
      by (simp add: registered_pose_def [symmetric] Let_def scan_first_match [OF assms(1,2)])
  qed
qed

lemma gravity_loop_first_match:
  assumes "\<not> gravity_initialized st"
    and "length (measurement (accelerometer tel)) \<le> length (timestamp_ms (accelerometer tel))"
    and "find (\<lambda>c. registered_pose st c \<noteq> None \<and>
           find (\<lambda>x. tolerance_test c (snd x))
             (zip (measurement (accelerometer tel)) (timestamp_ms (accelerometer tel))) \<noteq> None)
           cams = Some c"
    and "registered_pose st c = Some pose"
    and "find (\<lambda>x. tolerance_test c (snd x))
           (zip (measurement (accelerometer tel)) (timestamp_ms (accelerometer tel))) = Some x"
  shows "gravity_loop tel b cams st =
     Inr (st\<lparr>gravity_init :=
               mat_vec (so3 (SE3_mult (T_a_c pose) (SE3_inverse (T_i_c_init st))))
                 (vec_add (fst x) b),
             gravity_initialized := True\<rparr>)"
  using assms(3)
proof (induction cams)
  case Nil
  then show ?case by simp
next
  case (Cons c0 cams)
  define zs where "zs = zip (measurement (accelerometer tel)) (timestamp_ms (accelerometer tel))"
  show ?case
  proof (cases "registered_pose st c0 \<noteq> None \<and> find (\<lambda>x. tolerance_test c0 (snd x)) zs \<noteq> None")
    case True
    with Cons.prems have c0: "c0 = c" by (auto simp: zs_def split: if_splits)
    show ?thesis
      using assms(1,4,5)
      by (simp add: c0 registered_pose_def [symmetric] Let_def scan_first_match [OF assms(1,2)]
          gravity_loop_initialized)
  next
    case False
    with Cons.prems have rest: "find (\<lambda>c. registered_pose st c \<noteq> None \<and>
           find (\<lambda>x. tolerance_test c (snd x))
             (zip (measurement (accelerometer tel)) (timestamp_ms (accelerometer tel))) \<noteq> None)
           cams = Some c"
      by (auto simp: zs_def split: if_splits)
    note IH = Cons.IH [OF rest]
    show ?thesis
    proof (cases "registered_pose st c0")
      case None
      then show ?thesis using IH by (simp add: registered_pose_def)
    next
      case (Some p)
      with False have "find (\<lambda>x. tolerance_test c0 (snd x))
             (zip (measurement (accelerometer tel)) (timestamp_ms (accelerometer tel))) = None"
        unfolding zs_def by (metis option.distinct(1))
      then show ?thesis using Some IH assms(1)
        by (simp add: registered_pose_def [symmetric] Let_def scan_first_match [OF assms(1,2)])
    qed
  qed
qed

section \<open>Gravity initialisation\<close>

lemmas gravity_eval =
  InitializeGravity_def and_then_def call_def one_frame_registered_def new_calibrator_def
  one_sample_def to_int64_def SE3_mult_def SE3_inverse_def SE3_identity_def Identity3_def

text \<open>
  Claim C2 as stated does not hold: with the only sample 1.5 s away from the only frame, the
  gravity stays uninitialised, \<^verbatim>\<open>InitializeGravity\<close> hands the default vector on to the
  trajectory, and \<^verbatim>\<open>Optimize\<close> runs and returns its two errors.
\<close>

theorem gravity_default_handed_on:
  "\<not> within_tolerance 10 (11500 * 0.001) \<and>
   InitializeGravity (one_sample 11500 (0, 0, 9.81)) (0, 0, 0) one_frame_registered =
     Inr (one_frame_registered\<lparr>trajectory := [setG (0, 0, 0)]\<rparr>) \<and>
   \<not> gravity_initialized (one_frame_registered\<lparr>trajectory := [setG (0, 0, 0)]\<rparr>) \<and>
   Optimize (\<lambda>tr cs. 0) (\<lambda>tr cs. 0) 10 (one_frame_registered\<lparr>trajectory := [setG (0, 0, 0)]\<rparr>) =
     (one_frame_registered\<lparr>trajectory := [setG (0, 0, 0), optimize 10]\<rparr>, [0, 0])"
  by (simp add: gravity_eval within_tolerance_def Optimize_def)

text \<open>
  Claim C2, amended. When the gravity is not initialised and no accelerometer sample is
  within 1/30 s of a camera timestamp (by its time in seconds, and by the whole seconds that
  the code compares), \<^verbatim>\<open>InitializeGravity\<close> leaves the gravity and its status as they are and
  hands the stored vector on to the trajectory; \<^verbatim>\<open>Optimize\<close> then runs on that state as on
  any other and returns the two reprojection errors.
\<close>

theorem InitializeGravity_without_match:
  assumes "\<not> gravity_initialized st"
    and "length (measurement (accelerometer telemetry_data))
           \<le> length (timestamp_ms (accelerometer telemetry_data))"
    and "\<forall>c \<in> set (cam_timestamps st). \<forall>ts \<in> set (timestamp_ms (accelerometer telemetry_data)).
           \<not> within_tolerance c (ts * 0.001) \<and> \<not> tolerance_test c ts"
  shows "InitializeGravity telemetry_data accl_bias st = Inr (call (setG (gravity_init st)) st) \<and>
         \<not> gravity_initialized (call (setG (gravity_init st)) st) \<and>
         gravity_init (call (setG (gravity_init st)) st) = gravity_init st \<and>
         Optimize meanReprojection meanRSReprojection iterations
             (call (setG (gravity_init st)) st) =
           (call (optimize iterations) (call (setG (gravity_init st)) st),
            [meanReprojection (trajectory st @ [setG (gravity_init st), optimize iterations])
               (calib_corners st),
             meanRSReprojection (trajectory st @ [setG (gravity_init st), optimize iterations])
               (calib_corners st)])"
proof -
  have none: "find (\<lambda>x. tolerance_test c (snd x))
             (zip (measurement (accelerometer telemetry_data))
                (timestamp_ms (accelerometer telemetry_data))) = None"
    if "c \<in> set (cam_timestamps st)" for c
    using that assms(3) by (auto simp: find_None_iff dest: set_zip_rightD)
  have "gravity_loop telemetry_data accl_bias (cam_timestamps st) st = Inr st"
    by (rule gravity_loop_no_match [OF assms(1,2)]) (simp add: none)
  then have g: "InitializeGravity telemetry_data accl_bias st =
      Inr (call (setG (gravity_init st)) st)"
    by (simp add: InitializeGravity_def)
  show ?thesis using g assms(1) by (simp add: Optimize_def)
qed

text \<open>
  One frame at 10 s and one sample at 11.5 s.
\<close>

theorem InitializeGravity_without_match_example:
  "\<not> gravity_initialized one_frame_registered \<and>
   InitializeGravity (one_sample 11500 (0, 0, 9.81)) (0, 0, 0) one_frame_registered =
     Inr (call (setG (0, 0, 0)) one_frame_registered) \<and>
   snd (Optimize (\<lambda>tr cs. 0) (\<lambda>tr cs. 0) 10 (call (setG (0, 0, 0)) one_frame_registered)) = [0, 0]"
proof -
  have a: "\<not> gravity_initialized one_frame_registered"
    by (simp add: one_frame_registered_def new_calibrator_def)
  have b: "length (measurement (accelerometer (one_sample 11500 (0, 0, 9.81))))
           \<le> length (timestamp_ms (accelerometer (one_sample 11500 (0, 0, 9.81))))"
    by (simp add: one_sample_def)
  have c: "\<forall>c \<in> set (cam_timestamps one_frame_registered).
           \<forall>ts \<in> set (timestamp_ms (accelerometer (one_sample 11500 (0, 0, 9.81)))).
           \<not> within_tolerance c (ts * 0.001) \<and> \<not> tolerance_test c ts"
    by (simp add: one_frame_registered_def new_calibrator_def one_sample_def
        within_tolerance_def tolerance_test_def to_int64_def)
  have g: "gravity_init one_frame_registered = (0, 0, 0)"
    by (simp add: one_frame_registered_def new_calibrator_def)
  from InitializeGravity_without_match [OF a b c, of "(0, 0, 0)" "\<lambda>tr cs. 0" "\<lambda>tr cs. 0" 10] a
  show ?thesis by (simp add: g)
qed

lemma find_first:
  "\<forall>y \<in> set pre. \<not> P y \<Longrightarrow> P a \<Longrightarrow> find P (pre @ a # post) = Some a"
  by (induction pre) auto

lemma InitializeGravity_initialized:
  "gravity_initialized st \<Longrightarrow>
     InitializeGravity telemetry_data accl_bias st = Inr (call (setG (gravity_init st)) st)"
  by (simp add: InitializeGravity_def gravity_loop_initialized)

lemma InitializeGravity_scan:
  assumes "\<not> gravity_initialized st"
    and "length (measurement (accelerometer telemetry_data))
           \<le> length (timestamp_ms (accelerometer telemetry_data))"
    and cams: "cam_timestamps st = pre @ cam_t # post"
    and before: "\<forall>c \<in> set pre. registered_pose st c \<noteq> None \<longrightarrow>
           (\<forall>z \<in> set (zip (measurement (accelerometer telemetry_data))
                        (timestamp_ms (accelerometer telemetry_data))).
              \<not> within_tolerance c (snd z * 0.001) \<and> \<not> tolerance_test c (snd z))"
    and pose: "registered_pose st cam_t = Some pose"
    and zs: "zip (measurement (accelerometer telemetry_data))
               (timestamp_ms (accelerometer telemetry_data)) = zpre @ x # zpost"
    and zpre: "\<forall>z \<in> set zpre.
           \<not> within_tolerance cam_t (snd z * 0.001) \<and> \<not> tolerance_test cam_t (snd z)"
    and x: "within_tolerance cam_t (snd x * 0.001) \<and> tolerance_test cam_t (snd x)"
  shows "InitializeGravity telemetry_data accl_bias st =
     Inr (call (setG (mat_vec (so3 (SE3_mult (T_a_c pose) (SE3_inverse (T_i_c_init st))))
                        (vec_add (fst x) accl_bias)))
            (st\<lparr>gravity_init :=
                   mat_vec (so3 (SE3_mult (T_a_c pose) (SE3_inverse (T_i_c_init st))))
                     (vec_add (fst x) accl_bias),
                 gravity_initialized := True\<rparr>))"
proof -
  define P where "P c \<longleftrightarrow> registered_pose st c \<noteq> None \<and>
      find (\<lambda>x. tolerance_test c (snd x))
        (zip (measurement (accelerometer telemetry_data))
           (timestamp_ms (accelerometer telemetry_data))) \<noteq> None" for c
  have fx: "find (\<lambda>x. tolerance_test cam_t (snd x))
        (zip (measurement (accelerometer telemetry_data))
           (timestamp_ms (accelerometer telemetry_data))) = Some x"
    unfolding zs using zpre x by (intro find_first) simp_all
  have "\<not> P c" if "c \<in> set pre" for c
  proof (cases "registered_pose st c")
    case None
    then show ?thesis by (simp add: P_def)
  next
    case (Some p)
    with before that have "find (\<lambda>x. tolerance_test c (snd x))
        (zip (measurement (accelerometer telemetry_data))
           (timestamp_ms (accelerometer telemetry_data))) = None"
      by (force simp: find_None_iff)
    then show ?thesis by (simp add: P_def)
  qed
  moreover have "P cam_t"
    by (simp add: P_def pose fx)
  ultimately have "find P (cam_timestamps st) = Some cam_t"
    unfolding cams by (intro find_first) simp_all
  then have fc: "find (\<lambda>c. registered_pose st c \<noteq> None \<and>
      find (\<lambda>x. tolerance_test c (snd x))
        (zip (measurement (accelerometer telemetry_data))
           (timestamp_ms (accelerometer telemetry_data))) \<noteq> None) (cam_timestamps st)
      = Some cam_t"
    unfolding P_def .
  have "gravity_loop telemetry_data accl_bias (cam_timestamps st) st =
     Inr (st\<lparr>gravity_init :=
               mat_vec (so3 (SE3_mult (T_a_c pose) (SE3_inverse (T_i_c_init st))))
                 (vec_add (fst x) accl_bias),
             gravity_initialized := True\<rparr>)"
    by (rule gravity_loop_first_match [OF assms(1,2) fc pose fx])
  then show ?thesis
    by (simp add: InitializeGravity_def)
qed

text \<open>
  Claim C4 as stated does not hold. A calibrator that went through \<^verbatim>\<open>InitSpline\<close>,
  \<^verbatim>\<open>InitializeGravity\<close>, \<^verbatim>\<open>ClearSpline\<close> and \<^verbatim>\<open>InitSpline\<close> again has its spline built
  and its gravity initialised. The first accelerometer sample coincides with the registered
  frame at 0 s; with a bias of (0, 0, 1) the claim gives the gravity (0, 0, 10.81), and
  \<^verbatim>\<open>InitializeGravity\<close> leaves it at (0, 0, 9.81).
\<close>

theorem InitializeGravity_after_ClearSpline_keeps_gravity:
  "InitSpline key_order 4 two_frames SE3_identity example_weights 0 (0, 0, 0) (0, 0, 0)
     example_telemetry new_calibrator = Inr example_final \<and>
   InitializeGravity example_telemetry (0, 0, 0) example_final = Inr used_calibrator \<and>
   InitSpline key_order 4 two_frames SE3_identity example_weights 0 (0, 0, 0) (0, 0, 0)
     example_telemetry (ClearSpline used_calibrator) = Inr reused_calibrator \<and>
   hd (cam_timestamps reused_calibrator) = 0 \<and>
   registered_pose reused_calibrator 0 = Some \<lparr>T_a_c = SE3_identity\<rparr> \<and>
   T_i_c_init reused_calibrator = SE3_identity \<and>
   hd (zip (measurement (accelerometer example_telemetry))
         (timestamp_ms (accelerometer example_telemetry))) = ((0, 0, 9.81), 0) \<and>
   within_tolerance 0 (0 * 0.001) \<and>
   mat_vec (so3 (SE3_mult SE3_identity (SE3_inverse SE3_identity)))
     (vec_add (0, 0, 9.81) (0, 0, 1)) = (0, 0, 10.81) \<and>
   InitializeGravity example_telemetry (0, 0, 1) reused_calibrator =
     Inr (call (setG (0, 0, 9.81)) reused_calibrator) \<and>
   gravity_init (call (setG (0, 0, 9.81)) reused_calibrator) = (0, 0, 9.81)"
proof -
  have a: "hd (cam_timestamps reused_calibrator) = 0 \<and>
      registered_pose reused_calibrator 0 = Some \<lparr>T_a_c = SE3_identity\<rparr> \<and>
      T_i_c_init reused_calibrator = SE3_identity \<and>
      gravity_init (call (setG (0, 0, 9.81)) reused_calibrator) = (0, 0, 9.81)"
    by (simp add: reused_calibrator_def example_final_def new_calibrator_def registered_pose_def
        to_int64_def)
  have b: "hd (zip (measurement (accelerometer example_telemetry))
         (timestamp_ms (accelerometer example_telemetry))) = ((0, 0, 9.81), 0) \<and>
      within_tolerance 0 (0 * 0.001)"
    by (simp add: example_telemetry_def within_tolerance_def)
  have c: "mat_vec (so3 (SE3_mult SE3_identity (SE3_inverse SE3_identity)))
     (vec_add (0, 0, 9.81) (0, 0, 1)) = (0 :: real, 0 :: real, 10.81 :: real)"
    by (simp add: SE3_mult_def SE3_inverse_def SE3_identity_def Identity3_def)
  have "gravity_initialized reused_calibrator \<and> gravity_init reused_calibrator = (0, 0, 9.81)"
    by (simp add: reused_calibrator_def)
  then have d: "InitializeGravity example_telemetry (0, 0, 1) reused_calibrator =
     Inr (call (setG (0, 0, 9.81)) reused_calibrator)"
    using InitializeGravity_initialized [of reused_calibrator example_telemetry "(0, 0, 1)"]
    by simp
  show ?thesis using example_run InitializeGravity_example reused_run a b c d by blast
qed

text \<open>
  Claim C4, amended. When the gravity is initialised already, \<^verbatim>\<open>InitializeGravity\<close>
  assigns nothing and hands the stored gravity to the trajectory. When it is not: the
  camera timestamps are scanned in their stored order, and for each one that has a
  registered pose the accelerometer samples in theirs. Let \<open>cam_t\<close> be the first camera
  timestamp with a registered pose and a sample within 1/30 s, and \<open>x\<close> the first such
  sample for it, and let the test of the code (on the whole seconds of the sample time)
  agree with the tolerance on the pairs scanned up to there: it fails for every sample at
  the registered timestamps before \<open>cam_t\<close> and for the samples before \<open>x\<close> at \<open>cam_t\<close>,
  and holds for \<open>x\<close>. Then the gravity is the rotation of the pose of \<open>cam_t\<close> composed
  with the inverse of the initial transform, applied to the measurement of \<open>x\<close> plus the
  bias; it is assigned once, its status is set, and the vector is handed to the trajectory.
\<close>

theorem InitializeGravity_first_match:
  "(gravity_initialized st \<longrightarrow>
      InitializeGravity telemetry_data accl_bias st = Inr (call (setG (gravity_init st)) st)) \<and>
   (\<not> gravity_initialized st \<and>
    length (measurement (accelerometer telemetry_data))
      \<le> length (timestamp_ms (accelerometer telemetry_data)) \<and>
    cam_timestamps st = pre @ cam_t # post \<and>
    (\<forall>c \<in> set pre. registered_pose st c \<noteq> None \<longrightarrow>
       (\<forall>z \<in> set (zip (measurement (accelerometer telemetry_data))
                    (timestamp_ms (accelerometer telemetry_data))).
          \<not> within_tolerance c (snd z * 0.001) \<and> \<not> tolerance_test c (snd z))) \<and>
    registered_pose st cam_t = Some pose \<and>
    zip (measurement (accelerometer telemetry_data))
      (timestamp_ms (accelerometer telemetry_data)) = zpre @ x # zpost \<and>
    (\<forall>z \<in> set zpre.
       \<not> within_tolerance cam_t (snd z * 0.001) \<and> \<not> tolerance_test cam_t (snd z)) \<and>
    within_tolerance cam_t (snd x * 0.001) \<and> tolerance_test cam_t (snd x) \<longrightarrow>
      InitializeGravity telemetry_data accl_bias st =
        Inr (call (setG (mat_vec (so3 (SE3_mult (T_a_c pose) (SE3_inverse (T_i_c_init st))))
                           (vec_add (fst x) accl_bias)))
               (st\<lparr>gravity_init :=
                      mat_vec (so3 (SE3_mult (T_a_c pose) (SE3_inverse (T_i_c_init st))))
                        (vec_add (fst x) accl_bias),
                    gravity_initialized := True\<rparr>)))"
proof (intro conjI impI)
  assume "gravity_initialized st"
  then show "InitializeGravity telemetry_data accl_bias st =
      Inr (call (setG (gravity_init st)) st)"
    by (rule InitializeGravity_initialized)
next
  assume h: "\<not> gravity_initialized st \<and>
    length (measurement (accelerometer telemetry_data))
      \<le> length (timestamp_ms (accelerometer telemetry_data)) \<and>
    cam_timestamps st = pre @ cam_t # post \<and>
    (\<forall>c \<in> set pre. registered_pose st c \<noteq> None \<longrightarrow>
       (\<forall>z \<in> set (zip (measurement (accelerometer telemetry_data))
                    (timestamp_ms (accelerometer telemetry_data))).
          \<not> within_tolerance c (snd z * 0.001) \<and> \<not> tolerance_test c (snd z))) \<and>
    registered_pose st cam_t = Some pose \<and>
    zip (measurement (accelerometer telemetry_data))
      (timestamp_ms (accelerometer telemetry_data)) = zpre @ x # zpost \<and>
    (\<forall>z \<in> set zpre.
       \<not> within_tolerance cam_t (snd z * 0.001) \<and> \<not> tolerance_test cam_t (snd z)) \<and>
    within_tolerance cam_t (snd x * 0.001) \<and> tolerance_test cam_t (snd x)"
  show "InitializeGravity telemetry_data accl_bias st =
        Inr (call (setG (mat_vec (so3 (SE3_mult (T_a_c pose) (SE3_inverse (T_i_c_init st))))
                           (vec_add (fst x) accl_bias)))
               (st\<lparr>gravity_init :=
                      mat_vec (so3 (SE3_mult (T_a_c pose) (SE3_inverse (T_i_c_init st))))
                        (vec_add (fst x) accl_bias),
                    gravity_initialized := True\<rparr>))"
    by (rule InitializeGravity_scan [where pre = pre and post = post and zpre = zpre
          and zpost = zpost]) (use h in blast)+
qed

text \<open>
  The run on the three frames leaves the poses of the frames at 0 s and 1 s registered.
  With the samples at 3 s, 1 s and 1.02 s and a bias of (0, 0, 1), no sample is near the
  frame at 0 s, and the second sample is the first one near the frame at 1 s: the gravity
  is its measurement (0, 0, 9.81) plus the bias. On the calibrator whose gravity is
  initialised already, the stored gravity is handed on.
\<close>

theorem InitializeGravity_first_match_example:
  "InitSpline key_order 4 three_frames SE3_identity example_weights 0 (0, 0, 0) (0, 0, 0)
     example_telemetry new_calibrator = Inr three_final \<and>
   \<not> gravity_initialized three_final \<and>
   InitializeGravity scan_telemetry (0, 0, 1) three_final =
     Inr (call (setG (0, 0, 10.81))
            (three_final\<lparr>gravity_init := (0, 0, 10.81), gravity_initialized := True\<rparr>)) \<and>
   gravity_initialized reused_calibrator \<and>
   InitializeGravity scan_telemetry (0, 0, 1) reused_calibrator =
     Inr (call (setG (0, 0, 9.81)) reused_calibrator)"
proof -
  have a: "\<not> gravity_initialized three_final"
    by (simp add: three_final_def new_calibrator_def)
  have b: "length (measurement (accelerometer scan_telemetry))
           \<le> length (timestamp_ms (accelerometer scan_telemetry))"
    by (simp add: scan_telemetry_def)
  have c: "cam_timestamps three_final = [0] @ 1 # [2]"
    by (simp add: three_final_def)
  have z: "zip (measurement (accelerometer scan_telemetry))
             (timestamp_ms (accelerometer scan_telemetry)) =
           [((1, 1, 1), 3000)] @ ((0, 0, 9.81), 1000) # [((3, 3, 3), 1020)]"
    by (simp add: scan_telemetry_def)
  have d: "\<forall>c \<in> set [0]. registered_pose three_final c \<noteq> None \<longrightarrow>
       (\<forall>z \<in> set (zip (measurement (accelerometer scan_telemetry))
                    (timestamp_ms (accelerometer scan_telemetry))).
          \<not> within_tolerance c (snd z * 0.001) \<and> \<not> tolerance_test c (snd z))"
    by (simp add: scan_telemetry_def within_tolerance_def tolerance_test_def to_int64_def)
  have p: "registered_pose three_final 1 = Some \<lparr>T_a_c = SE3_identity\<rparr>"
    by (simp add: registered_pose_def three_final_def new_calibrator_def to_int64_def)
  have e: "\<forall>z \<in> set [((1 :: real, 1 :: real, 1 :: real), 3000 :: real)].
       \<not> within_tolerance 1 (snd z * 0.001) \<and> \<not> tolerance_test 1 (snd z)"
    by (simp add: within_tolerance_def tolerance_test_def to_int64_def)
  have x: "within_tolerance 1 (snd ((0 :: real, 0 :: real, 9.81 :: real), 1000 :: real) * 0.001) \<and>
      tolerance_test 1 (snd ((0 :: real, 0 :: real, 9.81 :: real), 1000 :: real))"
    by (simp add: within_tolerance_def tolerance_test_def to_int64_def)
  have g: "mat_vec (so3 (SE3_mult (T_a_c \<lparr>T_a_c = SE3_identity\<rparr>)
              (SE3_inverse (T_i_c_init three_final))))
            (vec_add (fst ((0, 0, 9.81), 1000 :: real)) (0, 0, 1)) = (0, 0, 10.81)"
    by (simp add: three_final_def new_calibrator_def SE3_mult_def SE3_inverse_def
        SE3_identity_def Identity3_def)
  note fm = InitializeGravity_first_match [where st = three_final
      and telemetry_data = scan_telemetry and accl_bias = "(0, 0, 1)" and pre = "[0]"
      and cam_t = 1 and post = "[2]" and pose = "\<lparr>T_a_c = SE3_identity\<rparr>"
      and zpre = "[((1, 1, 1), 3000)]" and x = "((0, 0, 9.81), 1000)"
      and zpost = "[((3, 3, 3), 1020)]", THEN conjunct2, rule_format]
  have first: "InitializeGravity scan_telemetry (0, 0, 1) three_final =
     Inr (call (setG (0, 0, 10.81))
            (three_final\<lparr>gravity_init := (0, 0, 10.81), gravity_initialized := True\<rparr>))"
    unfolding g [symmetric] by (rule fm) (intro conjI a b c d p z e x)
  have i: "gravity_initialized reused_calibrator" "gravity_init reused_calibrator = (0, 0, 9.81)"
    by (simp_all add: reused_calibrator_def)
  note im = InitializeGravity_first_match [where st = reused_calibrator
      and telemetry_data = scan_telemetry and accl_bias = "(0, 0, 1)", THEN conjunct1,
      rule_format]
  from im [OF i(1)] have again: "InitializeGravity scan_telemetry (0, 0, 1) reused_calibrator =
     Inr (call (setG (0, 0, 9.81)) reused_calibrator)"
    by (simp add: i(2))
  show ?thesis using three_run a first i(1) again by blast
qed

text \<open>
  Claim C3. One camera timestamp at 10 s with a registered identity pose, and one
  accelerometer sample with the measurement (0, 0, 9.81) and no bias. With the sample at
  10.02 s the gravity is initialised to (0, 0, 9.81). With the sample at 10.5 s, which is
  0.5 s away from the frame, the claim says that the gravity stays uninitialised; the code
  drops the fraction of the sample's time (\<^verbatim>\<open>accl_t\<close> is an \<^verbatim>\<open>int64_t\<close>), compares
  10 with 10 and initialises the gravity from that sample all the same.
\<close>

theorem InitializeGravity_one_sample:
  "InitializeGravity (one_sample 10020 (0, 0, 9.81)) (0, 0, 0) one_frame_registered =
     Inr (one_frame_registered
            \<lparr>trajectory := [setG (0, 0, 9.81)],
             gravity_init := (0, 0, 9.81), gravity_initialized := True\<rparr>) \<and>
   \<not> within_tolerance 10 (10500 * 0.001) \<and>
   InitializeGravity (one_sample 10500 (0, 0, 9.81)) (0, 0, 0) one_frame_registered =
     Inr (one_frame_registered
            \<lparr>trajectory := [setG (0, 0, 9.81)],
             gravity_init := (0, 0, 9.81), gravity_initialized := True\<rparr>)"
  by (simp add: gravity_eval within_tolerance_def)

end
